theory Spec2Isabelle
  imports Main "HOL-Library.Log_Nat"
begin

section \<open>Numbers and strings of the host language\<close>

text \<open>
  The component computes its percentages with the host's double precision numbers,
  \<^verbatim>\<open>Math.round((total / 7) * 100)\<close>. A double is modelled as the rational it denotes;
  every arithmetic operation rounds its exact result to the nearest number with a 53 bit
  significand, ties to the even significand (\<open>fl\<close>). Overflow and subnormal numbers are
  left out: the operands here are list lengths and counts of cells.
\<close>

definition rne :: "rat \<Rightarrow> int" where
  "rne x = (let f = \<lfloor>x\<rfloor>; r = x - of_int f
            in if r < 1 / 2 then f
               else if 1 / 2 < r then f + 1
               else if even f then f else f + 1)"

definition ilog2 :: "rat \<Rightarrow> int" where
  "ilog2 x = (let (p, q) = quotient_of x;
                  d = bitlen p - bitlen q
              in if 2 powi d \<le> x then d else d - 1)"

definition fl :: "rat \<Rightarrow> rat" where
  "fl x = (if x \<le> 0 then 0
           else let u = 2 powi (ilog2 x - 52) in of_int (rne (x / u)) * u)"

definition fdiv :: "int \<Rightarrow> int \<Rightarrow> rat" where
  "fdiv a b = fl (of_int a / of_int b)"

definition fmul :: "rat \<Rightarrow> int \<Rightarrow> rat" where
  "fmul x k = fl (x * of_int k)"

text \<open>\<^verbatim>\<open>Math.round\<close>: the nearest integer, a tie going towards plus infinity.\<close>

definition Math_round :: "rat \<Rightarrow> int" where
  "Math_round x = \<lfloor>x + 1 / 2\<rfloor>"

text \<open>The percentage expression shared by the summary cards, the export and the header.\<close>

definition percent :: "int \<Rightarrow> int \<Rightarrow> int" where
  "percent a b = Math_round (fmul (fdiv a b) 100)"

text \<open>Decimal rendering of a natural number, as string conversion of a number gives it.\<close>

definition digit :: "nat \<Rightarrow> char" where
  "digit n = ''0123456789'' ! (n mod 10)"

fun show_nat :: "nat \<Rightarrow> string" where
  "show_nat n = (if n < 10 then [digit n] else show_nat (n div 10) @ [digit n])"

declare show_nat.simps [simp del]

definition show_int :: "int \<Rightarrow> string" where
  "show_int i = (if i < 0 then CHR ''-'' # show_nat (nat (- i)) else show_nat (nat i))"

definition pad :: "nat \<Rightarrow> nat \<Rightarrow> string" where
  "pad w n = replicate (w - length (show_nat n)) CHR ''0'' @ show_nat n"

text \<open>
  \<^verbatim>\<open>String.prototype.trim\<close> strips white space and line terminators from both ends.
  A \<open>char\<close> is one byte, so the table holds the code points below 256: tab, line feed,
  vertical tab, form feed, carriage return, space and the no-break space.
\<close>

definition isWhite :: "char \<Rightarrow> bool" where
  "isWhite c = (c \<in> set [CHR 0x09, CHR 0x0A, CHR 0x0B, CHR 0x0C, CHR 0x0D, CHR 0x20, CHR 0xA0])"

definition trim :: "string \<Rightarrow> string" where
  "trim s = rev (dropWhile isWhite (rev (dropWhile isWhite s)))"

text \<open>\<^verbatim>\<open>Array.prototype.join\<close> on strings, and \<^verbatim>\<open>indexOf\<close> with its \<open>-1\<close>.\<close>

fun join :: "string \<Rightarrow> string list \<Rightarrow> string" where
  "join sep [] = []"
| "join sep [x] = x"
| "join sep (x # y # ys) = x @ sep @ join sep (y # ys)"

fun indexOf :: "'a list \<Rightarrow> 'a \<Rightarrow> int" where
  "indexOf [] x = - 1"
| "indexOf (y # ys) x =
     (if x = y then 0 else (let i = indexOf ys x in if i < 0 then - 1 else i + 1))"

section \<open>Dates\<close>

text \<open>
  A \<^verbatim>\<open>Date\<close> holds a time value, the milliseconds since the epoch in UTC, or is
  invalid (\<open>None\<close>). Local time is the time value plus the zone's offset \<open>tza\<close>
  (milliseconds east of UTC), taken constant.
\<close>

datatype jserror = RangeError | RemoteError string

type_synonym jsdate = "int option"

definition msPerDay :: int where
  "msPerDay = 86400000"

definition Day :: "int \<Rightarrow> int" where
  "Day t = t div msPerDay"

definition TimeWithinDay :: "int \<Rightarrow> int" where
  "TimeWithinDay t = t mod msPerDay"

definition WeekDay :: "int \<Rightarrow> int" where
  "WeekDay t = (Day t + 4) mod 7"

text \<open>
  The calendar functions follow the language standard: the day on which a year starts,
  the year of a day as the latest year that starts on or before it, and the month and
  the day of the month from the day within the year.
\<close>

definition DayFromYear :: "int \<Rightarrow> int" where
  "DayFromYear y =
     365 * (y - 1970) + (y - 1969) div 4 - (y - 1901) div 100 + (y - 1601) div 400"

definition InLeapYear :: "int \<Rightarrow> int" where
  "InLeapYear y =
     (if y mod 4 \<noteq> 0 then 0 else if y mod 100 \<noteq> 0 then 1 else if y mod 400 \<noteq> 0 then 0 else 1)"

definition YearFromDay :: "int \<Rightarrow> int" where
  "YearFromDay z =
     (let e = 1970 + (400 * z) div 146097
      in if DayFromYear (e + 1) \<le> z then e + 1
         else if DayFromYear e \<le> z then e
         else e - 1)"

definition YearFromTime :: "int \<Rightarrow> int" where
  "YearFromTime t = YearFromDay (Day t)"

definition DayWithinYear :: "int \<Rightarrow> int" where
  "DayWithinYear t = Day t - DayFromYear (YearFromTime t)"

text \<open>The day within the year on which month \<open>m\<close> starts; months count from 0.\<close>

definition monthStart :: "int \<Rightarrow> int \<Rightarrow> int" where
  "monthStart m leap =
     (if m = 0 then 0 else if m = 1 then 31
      else [59, 90, 120, 151, 181, 212, 243, 273, 304, 334] ! nat (m - 2) + leap)"

definition monthOfDay :: "int \<Rightarrow> int \<Rightarrow> int" where
  "monthOfDay dwy leap =
     (if dwy < 31 then 0
      else if dwy < 59 + leap then 1
      else if dwy < 90 + leap then 2
      else if dwy < 120 + leap then 3
      else if dwy < 151 + leap then 4
      else if dwy < 181 + leap then 5
      else if dwy < 212 + leap then 6
      else if dwy < 243 + leap then 7
      else if dwy < 273 + leap then 8
      else if dwy < 304 + leap then 9
      else if dwy < 334 + leap then 10
      else 11)"

definition MonthFromTime :: "int \<Rightarrow> int" where
  "MonthFromTime t = monthOfDay (DayWithinYear t) (InLeapYear (YearFromTime t))"

definition DateFromTime :: "int \<Rightarrow> int" where
  "DateFromTime t =
     DayWithinYear t - monthStart (MonthFromTime t) (InLeapYear (YearFromTime t)) + 1"

text \<open>A day of the month out of range carries into the neighbouring months.\<close>

definition MakeDay :: "int \<Rightarrow> int \<Rightarrow> int \<Rightarrow> int" where
  "MakeDay year month dt =
     (let ym = year + month div 12;
          mn = month mod 12
      in DayFromYear ym + monthStart mn (InLeapYear ym) + dt - 1)"

definition MakeDate :: "int \<Rightarrow> int \<Rightarrow> int" where
  "MakeDate day time = day * msPerDay + time"

definition TimeClip :: "int \<Rightarrow> jsdate" where
  "TimeClip t = (if \<bar>t\<bar> \<le> 8640000000000000 then Some t else None)"

definition getDay :: "int \<Rightarrow> jsdate \<Rightarrow> int option" where
  "getDay tza dt = map_option (\<lambda>t. WeekDay (t + tza)) dt"

definition getDate :: "int \<Rightarrow> jsdate \<Rightarrow> int option" where
  "getDate tza dt = map_option (\<lambda>t. DateFromTime (t + tza)) dt"

definition setDate :: "int \<Rightarrow> jsdate \<Rightarrow> int option \<Rightarrow> jsdate" where
  "setDate tza dt v =
     (case dt of None \<Rightarrow> None
      | Some t \<Rightarrow>
         (case v of None \<Rightarrow> None
          | Some n \<Rightarrow>
             (let lt = t + tza;
                  newDate = MakeDate (MakeDay (YearFromTime lt) (MonthFromTime lt) n)
                                     (TimeWithinDay lt)
              in TimeClip (newDate - tza))))"

definition showYear :: "int \<Rightarrow> string" where
  "showYear y =
     (if 0 \<le> y \<and> y \<le> 9999 then pad 4 (nat y)
      else (if y < 0 then CHR ''-'' else CHR ''+'') # pad 6 (nat \<bar>y\<bar>))"

definition toISOString :: "jsdate \<Rightarrow> jserror + string" where
  "toISOString dt =
     (case dt of None \<Rightarrow> Inl RangeError
      | Some t \<Rightarrow>
         (let w = TimeWithinDay t
          in Inr (showYear (YearFromTime t) @ ''-'' @ pad 2 (nat (MonthFromTime t + 1)) @ ''-''
                  @ pad 2 (nat (DateFromTime t)) @ ''T''
                  @ pad 2 (nat (w div 3600000)) @ '':'' @ pad 2 (nat (w div 60000 mod 60)) @ '':''
                  @ pad 2 (nat (w div 1000 mod 60)) @ ''.'' @ pad 3 (nat (w mod 1000)) @ ''Z'')))"

text \<open>\<^verbatim>\<open>s.split('T')[0]\<close>: the text before the first \<open>T\<close>.\<close>

definition beforeT :: "string \<Rightarrow> string" where
  "beforeT s = takeWhile (\<lambda>c. c \<noteq> CHR ''T'') s"

definition isoDate :: "jsdate \<Rightarrow> jserror + string" where
  "isoDate dt = (case toISOString dt of Inl e \<Rightarrow> Inl e | Inr s \<Rightarrow> Inr (beforeT s))"

text \<open>
  \<^verbatim>\<open>new Date(s)\<close> for the strings this component passes: the empty string of the
  initial state, which is invalid, and the date-only form \<open>YYYY-MM-DD\<close> that
  \<open>isoDate\<close> writes, which is read as midnight UTC. Any other text is taken as invalid.
\<close>

definition digitVal :: "char \<Rightarrow> int option" where
  "digitVal c = (let i = indexOf ''0123456789'' c in if i < 0 then None else Some i)"

fun number :: "string \<Rightarrow> int option" where
  "number [] = None"
| "number cs =
     foldl (\<lambda>acc c. case acc of None \<Rightarrow> None
                      | Some a \<Rightarrow> (case digitVal c of None \<Rightarrow> None | Some v \<Rightarrow> Some (10 * a + v)))
           (Some 0) cs"

definition Date_parse :: "string \<Rightarrow> jsdate" where
  "Date_parse s =
     (if length s = 10 \<and> s ! 4 = CHR ''-'' \<and> s ! 7 = CHR ''-'' then
        (case (number (take 4 s), number (take 2 (drop 5 s)), number (drop 8 s)) of
           (Some y, Some m, Some d) \<Rightarrow>
             (let t = MakeDate (MakeDay y (m - 1) d) 0
              in if 1 \<le> m \<and> m \<le> 12 \<and> 1 \<le> d
                    \<and> MonthFromTime t = m - 1 \<and> DateFromTime t = d
                 then TimeClip t else None)
         | _ \<Rightarrow> None)
      else None)"

subsection \<open>The start of the current week\<close>

text \<open>
  \<open>now\<close> is the clock reading that \<^verbatim>\<open>new Date()\<close> returns. The day of the week and
  the day of the month are read in local time, the result is written in UTC.
\<close>

definition getCurrentWeekStart :: "int \<Rightarrow> int \<Rightarrow> jserror + string" where
  "getCurrentWeekStart tza now =
     (let today = Some now;
          monday = today;
          monday' = setDate tza monday
                      (case (getDate tza today, getDay tza today) of
                         (Some d, Some wd) \<Rightarrow> Some (d - (if wd = 0 then 6 else wd - 1))
                       | _ \<Rightarrow> None)
      in isoDate monday')"

section \<open>The data model\<close>

text \<open>
  A habit row and an entry row, with the columns the component reads. The generated
  \<open>id\<close> and \<open>created_at\<close> of an entry and the \<open>created_at\<close> of a habit are never
  read; a table is a list in order of creation.
\<close>

record habit =
  h_id :: string
  h_name :: string
  h_user_id :: string

record entry =
  e_habit_id :: string
  e_user_id :: string
  e_date :: string
  e_completed :: bool

type_synonym tracker = "string \<rightharpoonup> (string \<rightharpoonup> bool)"

definition DAYS :: "string list" where
  "DAYS = [''Monday'', ''Tuesday'', ''Wednesday'', ''Thursday'', ''Friday'', ''Saturday'',
           ''Sunday'']"

text \<open>The component's state; \<open>user\<close> holds the identifier of the signed-in user.\<close>

record state =
  user :: "string option"
  loading :: bool
  isOnboarding :: bool
  habits :: "habit list"
  tracker :: tracker
  weekStartDate :: string
  habitInputs :: "string list"

definition blankInputs :: "string list" where
  "blankInputs = [[], [], [], [], []]"

definition initialState :: state where
  "initialState = \<lparr>user = None, loading = True, isOnboarding = True, habits = [],
                    tracker = Map.empty, weekStartDate = [], habitInputs = blankInputs\<rparr>"

text \<open>\<^verbatim>\<open>tracker[habitId]?.[day] || false\<close>: a missing key reads as false.\<close>

definition cell :: "tracker \<Rightarrow> string \<Rightarrow> string \<Rightarrow> bool" where
  "cell tr habitId day =
     (case tr habitId of None \<Rightarrow> False
      | Some days \<Rightarrow> (case days day of None \<Rightarrow> False | Some b \<Rightarrow> b))"

section \<open>The remote table store\<close>

text \<open>The requests the component sends, one constructor for each query it builds.\<close>

datatype request =
    SelectHabits string
  | SelectEntries "string option" string string
  | InsertHabits "(string \<times> string) list"
  | InsertEntry string string string bool
  | DeleteEntry string string string
  | DeleteEntries string
  | DeleteHabits string

text \<open>
  What an awaited request gives back: the promise rejects, or it resolves to an object
  with \<open>error\<close> set, or to one with \<open>data\<close> (rows, or nothing for a request without
  \<^verbatim>\<open>select\<close>).
\<close>

datatype reply =
    Rejected string
  | Failed string
  | HabitRows "habit list"
  | EntryRows "entry list"
  | NoData

record db =
  habits_tbl :: "habit list"
  entries_tbl :: "entry list"
  next_id :: nat

definition sameKey :: "string \<Rightarrow> string \<Rightarrow> string \<Rightarrow> entry \<Rightarrow> bool" where
  "sameKey habitId userId date e =
     (e_habit_id e = habitId \<and> e_user_id e = userId \<and> e_date e = date)"

definition dateLe :: "string \<Rightarrow> string \<Rightarrow> bool" where
  "dateLe a b = (case (Date_parse a, Date_parse b) of (Some x, Some y) \<Rightarrow> x \<le> y | _ \<Rightarrow> False)"

definition newHabitRows :: "nat \<Rightarrow> (string \<times> string) list \<Rightarrow> habit list" where
  "newHabitRows n rows =
     map (\<lambda>(i, (u, nm)). \<lparr>h_id = show_nat (n + i), h_name = nm, h_user_id = u\<rparr>)
         (zip [0..<length rows] rows)"

text \<open>
  Modelled from the spec: the table store is an external service, described in the
  section on external interfaces. \<open>habits\<close> supports a select by user in order of
  creation, a batch insert that returns the rows with their generated identifiers (drawn
  here from a counter) and a delete by user. \<open>habit_entries\<close> has a unique constraint on
  habit, user and date and supports a select by user and date range, an insert, a delete
  by that key and a delete by user. A select whose user filter is undefined is refused,
  the column being an identifier.
\<close>

fun run :: "request \<Rightarrow> db \<Rightarrow> reply \<times> db" where
  "run (SelectHabits u) d = (HabitRows (filter (\<lambda>h. h_user_id h = u) (habits_tbl d)), d)"
| "run (SelectEntries None lo hi) d = (Failed ''invalid input syntax for type uuid'', d)"
| "run (SelectEntries (Some u) lo hi) d =
     (EntryRows (filter (\<lambda>e. e_user_id e = u \<and> dateLe lo (e_date e) \<and> dateLe (e_date e) hi)
                        (entries_tbl d)), d)"
| "run (InsertHabits rows) d =
     (let new = newHabitRows (next_id d) rows
      in (HabitRows new,
          d\<lparr>habits_tbl := habits_tbl d @ new, next_id := next_id d + length rows\<rparr>))"
| "run (InsertEntry h u dt c) d =
     (if \<exists>e \<in> set (entries_tbl d). sameKey h u dt e
      then (Failed ''duplicate key value violates unique constraint'', d)
      else (NoData,
            d\<lparr>entries_tbl := entries_tbl d
                 @ [\<lparr>e_habit_id = h, e_user_id = u, e_date = dt, e_completed = c\<rparr>]\<rparr>))"
| "run (DeleteEntry h u dt) d =
     (NoData, d\<lparr>entries_tbl := filter (\<lambda>e. \<not> sameKey h u dt e) (entries_tbl d)\<rparr>)"
| "run (DeleteEntries u) d =
     (NoData, d\<lparr>entries_tbl := filter (\<lambda>e. e_user_id e \<noteq> u) (entries_tbl d)\<rparr>)"
| "run (DeleteHabits u) d =
     (NoData, d\<lparr>habits_tbl := filter (\<lambda>h. h_user_id h \<noteq> u) (habits_tbl d)\<rparr>)"

text \<open>
  The condition of one round trip: the request reaches the store and is run there; or it
  does not and the client resolves with an error object; or the awaited promise rejects.
\<close>

datatype net = Up | Down | Throws

definition exec :: "net \<Rightarrow> request \<Rightarrow> db \<Rightarrow> reply \<times> db" where
  "exec n rq d =
     (case n of Up \<Rightarrow> run rq d
      | Down \<Rightarrow> (Failed ''Failed to fetch'', d)
      | Throws \<Rightarrow> (Rejected ''Failed to fetch'', d))"

text \<open>
  The component together with what it acts on: the store, the console, the alerts shown
  and the requests sent so far.
\<close>

record world =
  app :: state
  remote :: db
  console :: "string list"
  alerts :: "string list"
  wire :: "request list"

definition await :: "net \<Rightarrow> request \<Rightarrow> world \<Rightarrow> reply \<times> world" where
  "await n rq w =
     (case exec n rq (remote w) of (r, d) \<Rightarrow> (r, w\<lparr>remote := d, wire := wire w @ [rq]\<rparr>))"

definition log_error :: "string \<Rightarrow> world \<Rightarrow> world" where
  "log_error msg w = w\<lparr>console := console w @ [msg]\<rparr>"

section \<open>The component\<close>

text \<open>
  Each handler is a function on the world. A handler that awaits a request takes the
  condition of that round trip as an argument, one for each \<^verbatim>\<open>await\<close>, so that
  the handlers are run one after the other, never interleaved. \<open>tza\<close> is the zone offset
  and \<open>now\<close> the clock reading.
\<close>

definition setApp :: "(state \<Rightarrow> state) \<Rightarrow> world \<Rightarrow> world" where
  "setApp f w = w\<lparr>app := f (app w)\<rparr>"

text \<open>
  The date of a day of the displayed week: \<^verbatim>\<open>new Date(weekStart)\<close>, then
  \<^verbatim>\<open>setDate(getDate() + dayIndex)\<close>, then the date part of \<^verbatim>\<open>toISOString()\<close>,
  which throws on an invalid date.
\<close>

definition dateStr :: "int \<Rightarrow> string \<Rightarrow> int \<Rightarrow> jserror + string" where
  "dateStr tza weekStart dayIndex =
     (let date = Date_parse weekStart;
          date' = setDate tza date (map_option (\<lambda>d. d + dayIndex) (getDate tza date))
      in isoDate date')"

subsection \<open>Loading\<close>

fun fillDays ::
  "int \<Rightarrow> string \<Rightarrow> entry list option \<Rightarrow> string \<Rightarrow> nat list \<Rightarrow> (string \<rightharpoonup> bool)
     \<Rightarrow> jserror + (string \<rightharpoonup> bool)" where
  "fillDays tza weekStart entriesData habitId [] days = Inr days"
| "fillDays tza weekStart entriesData habitId (dayIndex # rest) days =
     (case dateStr tza weekStart (int dayIndex) of
        Inl e \<Rightarrow> Inl e
      | Inr ds \<Rightarrow>
          (let dayName = DAYS ! dayIndex;
               entry = (case entriesData of None \<Rightarrow> None
                        | Some es \<Rightarrow> find (\<lambda>e. e_habit_id e = habitId \<and> e_date e = ds) es)
           in fillDays tza weekStart entriesData habitId rest
                (days(dayName \<mapsto> (case entry of None \<Rightarrow> False | Some e \<Rightarrow> e_completed e)))))"

fun fillHabits ::
  "int \<Rightarrow> string \<Rightarrow> entry list option \<Rightarrow> habit list \<Rightarrow> tracker \<Rightarrow> jserror + tracker" where
  "fillHabits tza weekStart entriesData [] newTracker = Inr newTracker"
| "fillHabits tza weekStart entriesData (habit # rest) newTracker =
     (case fillDays tza weekStart entriesData (h_id habit) [0..<length DAYS] Map.empty of
        Inl e \<Rightarrow> Inl e
      | Inr days \<Rightarrow>
          fillHabits tza weekStart entriesData rest (newTracker(h_id habit \<mapsto> days)))"

text \<open>
  \<open>cu\<close> is the \<open>user\<close> that the closure of \<^verbatim>\<open>loadHabitEntries\<close> sees. The function
  is reached only through \<^verbatim>\<open>loadUserHabits\<close>, which is memoised with an empty
  dependency list, so the closure is the one of the first render.
\<close>

definition loadHabitEntries ::
  "int \<Rightarrow> string option \<Rightarrow> net \<Rightarrow> habit list \<Rightarrow> string \<Rightarrow> world \<Rightarrow> world" where
  "loadHabitEntries tza cu n userHabits weekStart w =
     (case dateStr tza weekStart 6 of
        Inl e \<Rightarrow> log_error ''Error loading habit entries:'' w
      | Inr weekEnd \<Rightarrow>
          (case await n (SelectEntries cu weekStart weekEnd) w of
             (Rejected e, w1) \<Rightarrow> log_error ''Error loading habit entries:'' w1
           | (Failed e, w1) \<Rightarrow> log_error ''Error loading habit entries:'' w1
           | (r, w1) \<Rightarrow>
               (let entriesData = (case r of EntryRows es \<Rightarrow> Some es | _ \<Rightarrow> None)
                in case fillHabits tza weekStart entriesData userHabits Map.empty of
                     Inl e \<Rightarrow> log_error ''Error loading habit entries:'' w1
                   | Inr newTracker \<Rightarrow> setApp (\<lambda>s. s\<lparr>tracker := newTracker\<rparr>) w1)))"

definition loadUserHabits ::
  "int \<Rightarrow> int \<Rightarrow> string option \<Rightarrow> net \<Rightarrow> net \<Rightarrow> string \<Rightarrow> world \<Rightarrow> world" where
  "loadUserHabits tza now cu n1 n2 userId w =
     (case await n1 (SelectHabits userId) w of
        (Rejected e, w1) \<Rightarrow> log_error ''Error loading habits:'' w1
      | (Failed e, w1) \<Rightarrow> log_error ''Error loading habits:'' w1
      | (HabitRows (h # hs), w1) \<Rightarrow>
          (let w2 = setApp (\<lambda>s. s\<lparr>habits := h # hs, isOnboarding := False\<rparr>) w1
           in case getCurrentWeekStart tza now of
                Inl e \<Rightarrow> log_error ''Error loading habits:'' w2
              | Inr weekStart \<Rightarrow>
                  loadHabitEntries tza cu n2 (h # hs) weekStart
                    (setApp (\<lambda>s. s\<lparr>weekStartDate := weekStart\<rparr>) w2))
      | (r, w1) \<Rightarrow>
          (let w2 = setApp (\<lambda>s. s\<lparr>isOnboarding := True\<rparr>) w1
           in case getCurrentWeekStart tza now of
                Inl e \<Rightarrow> log_error ''Error loading habits:'' w2
              | Inr weekStart \<Rightarrow> setApp (\<lambda>s. s\<lparr>weekStartDate := weekStart\<rparr>) w2))"

subsection \<open>Signing in and out\<close>

text \<open>The listener for a change of the session; \<open>session\<close> is the user it carries.\<close>

definition onAuthStateChange ::
  "int \<Rightarrow> int \<Rightarrow> string option \<Rightarrow> net \<Rightarrow> net \<Rightarrow> string option \<Rightarrow> world \<Rightarrow> world" where
  "onAuthStateChange tza now cu n1 n2 session w =
     (let w0 = setApp (\<lambda>s. s\<lparr>user := session\<rparr>) w
      in case session of
           Some u \<Rightarrow> loadUserHabits tza now cu n1 n2 u w0
         | None \<Rightarrow> setApp (\<lambda>s. s\<lparr>habits := [], tracker := Map.empty, isOnboarding := True\<rparr>) w0)"

text \<open>
  \<^verbatim>\<open>signOut\<close> hands over to the provider, which ends the session and calls the
  listener with no session.
\<close>

definition signOut :: "int \<Rightarrow> int \<Rightarrow> string option \<Rightarrow> world \<Rightarrow> world" where
  "signOut tza now cu w = onAuthStateChange tza now cu Up Up None w"

subsection \<open>Onboarding\<close>

definition createFailed :: "world \<Rightarrow> world" where
  "createFailed w =
     (log_error ''Error creating habits:'' w)
       \<lparr>alerts := alerts w @ [''Error creating habits. Please try again.'']\<rparr>"

definition handleOnboardingSubmit :: "int \<Rightarrow> int \<Rightarrow> net \<Rightarrow> world \<Rightarrow> world" where
  "handleOnboardingSubmit tza now n w =
     (case user (app w) of
        None \<Rightarrow> w
      | Some u \<Rightarrow>
          (let validHabits = filter (\<lambda>habit. trim habit \<noteq> []) (habitInputs (app w))
           in if length validHabits = 5 then
                (let habitsToInsert = map (\<lambda>name. (u, trim name)) validHabits
                 in case await n (InsertHabits habitsToInsert) w of
                      (Rejected e, w1) \<Rightarrow> createFailed w1
                    | (Failed e, w1) \<Rightarrow> createFailed w1
                    | (HabitRows newHabits, w1) \<Rightarrow>
                        (let w2 = setApp (\<lambda>s. s\<lparr>habits := newHabits, tracker := Map.empty\<rparr>) w1
                         in case getCurrentWeekStart tza now of
                              Inl e \<Rightarrow> createFailed w2
                            | Inr weekStart \<Rightarrow>
                                setApp (\<lambda>s. s\<lparr>weekStartDate := weekStart,
                                               isOnboarding := False\<rparr>) w2)
                    | (r, w1) \<Rightarrow> w1)
              else w))"

subsection \<open>Toggling a cell\<close>

text \<open>
  The date is computed before the \<^verbatim>\<open>try\<close>, so an invalid week start makes the
  handler throw (\<open>Inl\<close>). The result of the awaited request is not inspected.
\<close>

definition flipCell :: "string \<Rightarrow> string \<Rightarrow> bool \<Rightarrow> tracker \<Rightarrow> tracker" where
  "flipCell habitId day newValue prev =
     prev(habitId \<mapsto> (case prev habitId of None \<Rightarrow> Map.empty | Some days \<Rightarrow> days)(day \<mapsto> newValue))"

definition toggleHabit :: "int \<Rightarrow> net \<Rightarrow> string \<Rightarrow> string \<Rightarrow> world \<Rightarrow> jserror + world" where
  "toggleHabit tza n habitId day w =
     (case user (app w) of
        None \<Rightarrow> Inr w
      | Some u \<Rightarrow>
          (case dateStr tza (weekStartDate (app w)) (indexOf DAYS day) of
             Inl e \<Rightarrow> Inl e
           | Inr ds \<Rightarrow>
               (let currentValue = cell (tracker (app w)) habitId day;
                    newValue = (\<not> currentValue)
                in case await n (if currentValue then DeleteEntry habitId u ds
                                 else InsertEntry habitId u ds True) w of
                     (Rejected e, w1) \<Rightarrow> Inr (log_error ''Error toggling habit:'' w1)
                   | (r, w1) \<Rightarrow>
                       Inr (setApp (\<lambda>s. s\<lparr>tracker := flipCell habitId day newValue (tracker s)\<rparr>)
                              w1))))"

subsection \<open>Resetting\<close>

definition resetWeek :: "net \<Rightarrow> net \<Rightarrow> world \<Rightarrow> world" where
  "resetWeek n1 n2 w =
     (case user (app w) of
        None \<Rightarrow> w
      | Some u \<Rightarrow>
          (case await n1 (DeleteEntries u) w of
             (Rejected e, w1) \<Rightarrow> log_error ''Error resetting data:'' w1
           | (r1, w1) \<Rightarrow>
               (case await n2 (DeleteHabits u) w1 of
                  (Rejected e, w2) \<Rightarrow> log_error ''Error resetting data:'' w2
                | (r2, w2) \<Rightarrow>
                    setApp (\<lambda>s. s\<lparr>isOnboarding := True, habits := [], tracker := Map.empty,
                                   habitInputs := blankInputs\<rparr>) w2)))"

subsection \<open>Statistics and export\<close>

text \<open>The summary card of one habit: the completed days and their percentage.\<close>

definition habitSummary :: "tracker \<Rightarrow> habit \<Rightarrow> int \<times> int" where
  "habitSummary tr habit =
     (let completed = foldl (\<lambda>sum day. sum + (if cell tr (h_id habit) day then 1 else 0)) 0 DAYS;
          percentage = percent completed 7
      in (completed, percentage))"

definition getWeeklyProgress :: "state \<Rightarrow> int" where
  "getWeeklyProgress s =
     (let totalPossible = int (length (habits s)) * 7;
          totalCompleted =
            foldl (\<lambda>sum habit.
                     sum + foldl (\<lambda>daySum day.
                                    daySum + (if cell (tracker s) (h_id habit) day then 1 else 0))
                                 0 DAYS)
                  0 (habits s)
      in if 0 < totalPossible then percent totalCompleted totalPossible else 0)"

text \<open>
  The export builds one object for each habit, with the keys \<open>habit\<close>, \<open>total\<close>,
  \<open>percentage\<close> and the seven day names, and reads it back by key when it writes the
  row. \<open>toStr\<close> is the conversion that \<^verbatim>\<open>join\<close> applies, \<open>template\<close> the one of a
  template literal.
\<close>

datatype jsval = Num int | Str string

definition toStr :: "jsval option \<Rightarrow> string" where
  "toStr v = (case v of None \<Rightarrow> [] | Some (Num n) \<Rightarrow> show_int n | Some (Str s) \<Rightarrow> s)"

definition template :: "jsval option \<Rightarrow> string" where
  "template v = (case v of None \<Rightarrow> ''undefined'' | Some (Num n) \<Rightarrow> show_int n | Some (Str s) \<Rightarrow> s)"

definition statData :: "tracker \<Rightarrow> habit \<Rightarrow> (string \<rightharpoonup> jsval)" where
  "statData tr habit =
     (let habitStats = map (\<lambda>day. if cell tr (h_id habit) day then 1 else 0) DAYS;
          total = foldl (\<lambda>sum val. sum + val) 0 habitStats;
          stat = [''habit'' \<mapsto> Str (h_name habit), ''total'' \<mapsto> Num total,
                  ''percentage'' \<mapsto> Num (percent total 7)]
      in foldl (\<lambda>st (day, i). st(day \<mapsto> Num (habitStats ! i))) stat
               (zip DAYS [0..<length DAYS]))"

definition csvRow :: "(string \<rightharpoonup> jsval) \<Rightarrow> string" where
  "csvRow stat =
     join '','' ([toStr (stat ''habit'')] @ map (\<lambda>day. toStr (stat day)) DAYS
                 @ [toStr (stat ''total''), template (stat ''percentage'') @ ''%''])"

text \<open>\<open>downloadStats\<close> gives the content of the file and the name it is saved under.\<close>

definition downloadStats :: "state \<Rightarrow> string \<times> string" where
  "downloadStats s =
     (let stats = map (statData (tracker s)) (habits s);
          csvContent = join [CHR 0x0A]
                         (join '','' ([''Habit''] @ DAYS @ [''Total'', ''Percentage''])
                          # map csvRow stats)
      in (csvContent, ''habit-tracker-'' @ weekStartDate s @ ''.csv''))"

text \<open>
  Reading the file back, as the spec describes it: comma-delimited fields, one record on
  each line.
\<close>

fun splitOn :: "char \<Rightarrow> string \<Rightarrow> string list" where
  "splitOn c [] = [[]]"
| "splitOn c (x # xs) =
     (if x = c then [] # splitOn c xs
      else (case splitOn c xs of [] \<Rightarrow> [[x]] | y # ys \<Rightarrow> (x # y) # ys))"

definition readCsv :: "string \<Rightarrow> string list list" where
  "readCsv s = map (splitOn CHR '','') (splitOn (CHR 0x0A) s)"

section \<open>Example worlds\<close>

text \<open>
  A clock reading on Tuesday 2024-01-02 at noon UTC, a signed-in user who has typed five
  names into the onboarding form, and the same user after the form was submitted.
\<close>

definition emptyDb :: db where
  "emptyDb = \<lparr>habits_tbl = [], entries_tbl = [], next_id = 0\<rparr>"

definition exampleClock :: int where
  "exampleClock = 1704196800000"

definition typedInputs :: "string list" where
  "typedInputs = [''read'', '' run '', ''cook'', ''sleep'', ''code'']"

definition freshWorld :: world where
  "freshWorld = \<lparr>app = initialState, remote = emptyDb, console = [], alerts = [], wire = []\<rparr>"

definition onboardingWorld :: world where
  "onboardingWorld =
     \<lparr>app = \<lparr>user = Some ''u1'', loading = False, isOnboarding = True, habits = [],
              tracker = Map.empty, weekStartDate = ''2024-01-01'', habitInputs = typedInputs\<rparr>,
      remote = emptyDb, console = [], alerts = [], wire = []\<rparr>"

definition exampleHabits :: "habit list" where
  "exampleHabits =
     [\<lparr>h_id = ''0'', h_name = ''read'', h_user_id = ''u1''\<rparr>,
      \<lparr>h_id = ''1'', h_name = ''run'', h_user_id = ''u1''\<rparr>,
      \<lparr>h_id = ''2'', h_name = ''cook'', h_user_id = ''u1''\<rparr>,
      \<lparr>h_id = ''3'', h_name = ''sleep'', h_user_id = ''u1''\<rparr>,
      \<lparr>h_id = ''4'', h_name = ''code'', h_user_id = ''u1''\<rparr>]"

definition trackingWorld :: world where
  "trackingWorld =
     \<lparr>app = \<lparr>user = Some ''u1'', loading = False, isOnboarding = False, habits = exampleHabits,
              tracker = Map.empty, weekStartDate = ''2024-01-01'', habitInputs = typedInputs\<rparr>,
      remote = \<lparr>habits_tbl = exampleHabits, entries_tbl = [], next_id = 5\<rparr>,
      console = [], alerts = [],
      wire = [InsertHabits [(''u1'', ''read''), (''u1'', ''run''), (''u1'', ''cook''),
                            (''u1'', ''sleep''), (''u1'', ''code'')]]\<rparr>"

definition partialWorld :: world where
  "partialWorld =
     onboardingWorld\<lparr>app := (app onboardingWorld)\<lparr>habitInputs := [''read'', ''  '', [], ''cook'', ''code'']\<rparr>\<rparr>"

text \<open>
  The tracking example later in the week: two cells done, their rows in the store, and a
  row of another user.
\<close>

definition otherHabit :: habit where
  "otherHabit = \<lparr>h_id = ''5'', h_name = ''swim'', h_user_id = ''u2''\<rparr>"

definition exampleEntries :: "entry list" where
  "exampleEntries =
     [\<lparr>e_habit_id = ''0'', e_user_id = ''u1'', e_date = ''2024-01-01'', e_completed = True\<rparr>,
      \<lparr>e_habit_id = ''5'', e_user_id = ''u2'', e_date = ''2024-01-01'', e_completed = True\<rparr>,
      \<lparr>e_habit_id = ''1'', e_user_id = ''u1'', e_date = ''2024-01-03'', e_completed = True\<rparr>]"

definition exampleTracker :: tracker where
  "exampleTracker = [''0'' \<mapsto> [''Monday'' \<mapsto> True], ''1'' \<mapsto> [''Wednesday'' \<mapsto> True]]"

definition busyWorld :: world where
  "busyWorld =
     trackingWorld
       \<lparr>app := (app trackingWorld)\<lparr>tracker := exampleTracker\<rparr>,
        remote := \<lparr>habits_tbl = exampleHabits @ [otherHabit], entries_tbl = exampleEntries,
                   next_id = 6\<rparr>\<rparr>"

text \<open>
  The same user coming back: the component is in its initial state, the store holds the
  habits and the entries of the week, and the session listener is told that the user has
  signed in. The \<open>user\<close> that the closure of \<^verbatim>\<open>loadHabitEntries\<close> sees is the one
  of the first render, which is \<^verbatim>\<open>null\<close>.
\<close>

definition returningWorld :: world where
  "returningWorld =
     \<lparr>app = initialState,
      remote = \<lparr>habits_tbl = exampleHabits @ [otherHabit], entries_tbl = exampleEntries,
                 next_id = 6\<rparr>,
      console = [], alerts = [], wire = []\<rparr>"

definition loadedWorld :: world where
  "loadedWorld = onAuthStateChange 0 exampleClock None Up Up (Some ''u1'') returningWorld"

section \<open>Sequences of toggles\<close>


section \<open>Notions used to state the properties\<close>


text \<open>
  The value that loading gives to day \<open>i\<close> of a habit, and the seven days of a habit
  together.
\<close>

definition dayValue :: "int \<Rightarrow> string \<Rightarrow> entry list option \<Rightarrow> string \<Rightarrow> nat \<Rightarrow> bool" where
  "dayValue tza weekStart entriesData habitId i =
     (case dateStr tza weekStart (int i) of
        Inl e \<Rightarrow> False
      | Inr ds \<Rightarrow>
          (case (case entriesData of None \<Rightarrow> None
                 | Some es \<Rightarrow> find (\<lambda>e. e_habit_id e = habitId \<and> e_date e = ds) es) of
             None \<Rightarrow> False
           | Some e \<Rightarrow> e_completed e))"

definition weekOf :: "int \<Rightarrow> string \<Rightarrow> entry list option \<Rightarrow> string \<Rightarrow> (string \<rightharpoonup> bool)" where
  "weekOf tza ws ed hid =
     [''Monday'' \<mapsto> dayValue tza ws ed hid 0, ''Tuesday'' \<mapsto> dayValue tza ws ed hid 1,
      ''Wednesday'' \<mapsto> dayValue tza ws ed hid 2, ''Thursday'' \<mapsto> dayValue tza ws ed hid 3,
      ''Friday'' \<mapsto> dayValue tza ws ed hid 4, ''Saturday'' \<mapsto> dayValue tza ws ed hid 5,
      ''Sunday'' \<mapsto> dayValue tza ws ed hid 6]"

text \<open>
  The completed cells of the spec's formula for the weekly progress: the cells of the
  listed habits that read as true.
\<close>

definition completedCells :: "state \<Rightarrow> nat" where
  "completedCells s =
     sum_list (map (\<lambda>habit. length (filter (cell (tracker s) (h_id habit)) DAYS)) (habits s))"

text \<open>The fields of the header and of the row of a habit, before they are joined.\<close>

definition flag :: "tracker \<Rightarrow> habit \<Rightarrow> string \<Rightarrow> int" where
  "flag tr habit day = (if cell tr (h_id habit) day then 1 else 0)"

definition dayFields :: "tracker \<Rightarrow> habit \<Rightarrow> string list" where
  "dayFields tr habit = map (\<lambda>day. if cell tr (h_id habit) day then ''1'' else ''0'') DAYS"

definition rowFields :: "tracker \<Rightarrow> habit \<Rightarrow> string list" where
  "rowFields tr habit =
     h_name habit # dayFields tr habit
       @ [show_int (fst (habitSummary tr habit)), show_int (snd (habitSummary tr habit)) @ ''%'']"

definition headerFields :: "string list" where
  "headerFields = ''Habit'' # DAYS @ [''Total'', ''Percentage'']"

text \<open>A state with one habit done on every day, and one with a comma in a habit's name.\<close>

definition allWeek :: "string \<rightharpoonup> bool" where
  "allWeek = [''Monday'' \<mapsto> True, ''Tuesday'' \<mapsto> True, ''Wednesday'' \<mapsto> True,
              ''Thursday'' \<mapsto> True, ''Friday'' \<mapsto> True, ''Saturday'' \<mapsto> True,
              ''Sunday'' \<mapsto> True]"

definition oneHabitState :: state where
  "oneHabitState =
     \<lparr>user = Some ''u1'', loading = False, isOnboarding = False,
      habits = [\<lparr>h_id = ''0'', h_name = ''read'', h_user_id = ''u1''\<rparr>],
      tracker = [''0'' \<mapsto> allWeek], weekStartDate = ''2024-01-01'',
      habitInputs = blankInputs\<rparr>"

definition commaState :: state where
  "commaState =
     \<lparr>user = Some ''u1'', loading = False, isOnboarding = False,
      habits = [\<lparr>h_id = ''0'', h_name = ''a,b'', h_user_id = ''u1''\<rparr>],
      tracker = Map.empty, weekStartDate = ''2024-01-01'', habitInputs = blankInputs\<rparr>"

section \<open>Facts about dates\<close>

lemma monthOfDay_range: "0 \<le> monthOfDay dwy leap \<and> monthOfDay dwy leap \<le> 11"
  by (simp add: monthOfDay_def)

text \<open>Setting the day of the month to the current one plus \<open>k\<close> moves the date by \<open>k\<close> days.\<close>

lemma MakeDay_inverse:
  "MakeDay (YearFromTime t) (MonthFromTime t) (DateFromTime t + k) = Day t + k"
proof -
  have r: "0 \<le> MonthFromTime t \<and> MonthFromTime t \<le> 11"
    by (simp add: MonthFromTime_def monthOfDay_range)
  then have "MonthFromTime t div 12 = 0" "MonthFromTime t mod 12 = MonthFromTime t"
    by simp_all
  then show ?thesis
    by (simp add: MakeDay_def DateFromTime_def DayWithinYear_def)
qed

lemma div_bounds: "0 < (c::int) \<Longrightarrow> c * (a div c) \<le> a \<and> a < c * (a div c) + c"
  by (metis mult.commute pos_mod_bound pos_mod_sign div_mult_mod_eq
        add_le_cancel_left add_less_cancel_left add_0_right)

lemma DayFromYear_lower: "z < DayFromYear (1970 + (400 * z) div 146097 + 2)"
proof -
  define e where "e = (400 * z) div 146097"
  define a where "a = (e + 3) div 4"
  define b where "b = (e + 71) div 100"
  define c where "c = (e + 371) div 400"
  have "146097 * e \<le> 400 * z \<and> 400 * z < 146097 * e + 146097"
    unfolding e_def using div_bounds [of 146097 "400 * z"] by simp
  moreover have "4 * a \<le> e + 3 \<and> e + 3 < 4 * a + 4"
    unfolding a_def using div_bounds [of 4 "e + 3"] by simp
  moreover have "100 * b \<le> e + 71 \<and> e + 71 < 100 * b + 100"
    unfolding b_def using div_bounds [of 100 "e + 71"] by simp
  moreover have "400 * c \<le> e + 371 \<and> e + 371 < 400 * c + 400"
    unfolding c_def using div_bounds [of 400 "e + 371"] by simp
  ultimately have "z < 365 * (e + 2) + a - b + c"
    by (simp add: algebra_simps)
  then show ?thesis
    by (simp add: DayFromYear_def e_def a_def b_def c_def algebra_simps)
qed

lemma DayFromYear_upper: "DayFromYear (1970 + (400 * z) div 146097 - 1) \<le> z"
proof -
  define e where "e = (400 * z) div 146097"
  define a where "a = e div 4"
  define b where "b = (e + 68) div 100"
  define c where "c = (e + 368) div 400"
  have "146097 * e \<le> 400 * z \<and> 400 * z < 146097 * e + 146097"
    unfolding e_def using div_bounds [of 146097 "400 * z"] by simp
  moreover have "4 * a \<le> e \<and> e < 4 * a + 4"
    unfolding a_def using div_bounds [of 4 "e"] by simp
  moreover have "100 * b \<le> e + 68 \<and> e + 68 < 100 * b + 100"
    unfolding b_def using div_bounds [of 100 "e + 68"] by simp
  moreover have "400 * c \<le> e + 368 \<and> e + 368 < 400 * c + 400"
    unfolding c_def using div_bounds [of 400 "e + 368"] by simp
  ultimately have "365 * (e - 1) + a - b + c \<le> z"
    by (simp add: algebra_simps)
  then show ?thesis
    by (simp add: DayFromYear_def e_def a_def b_def c_def algebra_simps)
qed

text \<open>The year of a day is the year that contains it.\<close>

lemma YearFromDay_correct:
  "DayFromYear (YearFromDay z) \<le> z \<and> z < DayFromYear (YearFromDay z + 1)"
  using DayFromYear_lower [of z] DayFromYear_upper [of z]
  by (simp add: YearFromDay_def Let_def)

lemma setDate_shift:
  "setDate tza (Some t) (map_option (\<lambda>d. d + k) (getDate tza (Some t)))
     = TimeClip (t + k * msPerDay)"
proof -
  have "MakeDate (Day (t + tza) + k) (TimeWithinDay (t + tza)) = t + tza + k * msPerDay"
    by (simp add: MakeDate_def Day_def TimeWithinDay_def algebra_simps)
  then show ?thesis
    by (simp add: setDate_def getDate_def MakeDay_inverse)
qed

lemma isoDate_Some: "\<exists>s. isoDate (Some t) = Inr s"
  by (simp add: isoDate_def toISOString_def Let_def)

lemma isoDate_None: "isoDate None = Inl RangeError"
  by (simp add: isoDate_def toISOString_def)

lemma dateStr_parse:
  "Date_parse ws = Some t0 \<Longrightarrow> dateStr tza ws i = isoDate (TimeClip (t0 + i * msPerDay))"
  by (simp add: dateStr_def Let_def setDate_shift)

lemma dateStr_invalid: "Date_parse ws = None \<Longrightarrow> dateStr tza ws i = Inl RangeError"
  by (simp add: dateStr_def Let_def setDate_def getDate_def isoDate_None)

lemma Date_parse_range: "Date_parse ws = Some t0 \<Longrightarrow> \<bar>t0\<bar> \<le> 8640000000000000"
  by (auto simp: Date_parse_def TimeClip_def Let_def split: if_splits option.splits)

lemma weekday_back:
  "0 \<le> wd \<Longrightarrow> wd < 7 \<Longrightarrow> (if wd = 0 then 6 else wd - 1) = (wd + 6) mod (7::int)"
  by presburger

lemma WeekDay_range: "0 \<le> WeekDay t \<and> WeekDay t < 7"
  by (simp add: WeekDay_def)

text \<open>
  The week start is the clock reading moved back by the days since the local Monday,
  written as a date in UTC.
\<close>

lemma getCurrentWeekStart_eq:
  "getCurrentWeekStart tza now =
     isoDate (TimeClip (now - ((WeekDay (now + tza) + 6) mod 7) * msPerDay))"
proof -
  have "(if WeekDay (now + tza) = 0 then 6 else WeekDay (now + tza) - 1)
        = (WeekDay (now + tza) + 6) mod 7"
    using WeekDay_range [of "now + tza"] weekday_back by blast
  then have "setDate tza (Some now)
          (Some (DateFromTime (now + tza)
                 - (if WeekDay (now + tza) = 0 then 6 else WeekDay (now + tza) - 1)))
        = TimeClip (now + (- ((WeekDay (now + tza) + 6) mod 7)) * msPerDay)"
    using setDate_shift [of tza now "- ((WeekDay (now + tza) + 6) mod 7)"]
    by (simp add: getDate_def)
  then show ?thesis
    by (simp add: getCurrentWeekStart_def getDate_def getDay_def Let_def)
qed

lemma getCurrentWeekStart_total:
  assumes "- 8640000000000000 + 6 * msPerDay \<le> now" "now \<le> 8640000000000000"
  shows "\<exists>ws. getCurrentWeekStart tza now = Inr ws"
proof -
  define k where "k = (WeekDay (now + tza) + 6) mod 7"
  have "0 \<le> k \<and> k \<le> 6" by (simp add: k_def)
  then have "0 \<le> k * msPerDay \<and> k * msPerDay \<le> 6 * msPerDay"
    by (simp add: msPerDay_def)
  with assms have "TimeClip (now - k * msPerDay) = Some (now - k * msPerDay)"
    by (auto simp: TimeClip_def abs_le_iff)
  then show ?thesis
    using isoDate_Some by (simp add: getCurrentWeekStart_eq k_def)
qed

text \<open>In the zone of UTC the week start is the date of a Monday, at most six days back.\<close>

lemma getCurrentWeekStart_utc:
  assumes "- 8640000000000000 + 6 * msPerDay \<le> now" "now \<le> 8640000000000000"
  shows "\<exists>k. 0 \<le> k \<and> k \<le> 6 \<and> WeekDay (now - k * msPerDay) = 1
           \<and> getCurrentWeekStart 0 now = isoDate (Some (now - k * msPerDay))"
proof -
  define k where "k = (WeekDay now + 6) mod 7"
  have kr: "0 \<le> k \<and> k \<le> 6" by (simp add: k_def)
  then have "0 \<le> k * msPerDay \<and> k * msPerDay \<le> 6 * msPerDay"
    by (simp add: msPerDay_def)
  with assms have c: "TimeClip (now - k * msPerDay) = Some (now - k * msPerDay)"
    by (auto simp: TimeClip_def abs_le_iff)
  have "Day (now - k * msPerDay) = Day now - k"
    by (simp add: Day_def msPerDay_def)
  then have "WeekDay (now - k * msPerDay) = (Day now - k + 4) mod 7"
    by (simp add: WeekDay_def)
  also have "\<dots> = 1"
    unfolding k_def WeekDay_def by presburger
  finally have "WeekDay (now - k * msPerDay) = 1" .
  with kr c show ?thesis
    by (intro exI [of _ k]) (simp add: getCurrentWeekStart_eq k_def)
qed

section \<open>The example worlds, evaluated\<close>

lemma clock_week: "getCurrentWeekStart 0 exampleClock = Inr ''2024-01-01''"
  unfolding exampleClock_def by code_simp

lemma typed_trim: "map trim typedInputs = [''read'', ''run'', ''cook'', ''sleep'', ''code'']"
  unfolding typedInputs_def by code_simp

lemma typed_valid: "filter (\<lambda>habit. trim habit \<noteq> []) typedInputs = typedInputs"
  unfolding typedInputs_def by code_simp

lemma new_rows:
  "newHabitRows 0 [(''u1'', ''read''), (''u1'', ''run''), (''u1'', ''cook''),
                   (''u1'', ''sleep''), (''u1'', ''code'')] = exampleHabits"
  unfolding exampleHabits_def by code_simp

text \<open>Submitting the onboarding form of the example leads to the tracking example.\<close>

lemma onboarding_example:
  "handleOnboardingSubmit 0 exampleClock Up onboardingWorld = trackingWorld"
  using typed_trim
  by (simp add: handleOnboardingSubmit_def onboardingWorld_def trackingWorld_def typed_valid
        await_def exec_def clock_week new_rows emptyDb_def setApp_def Let_def)
    (simp add: typedInputs_def new_rows)

section \<open>Handlers without a signed-in user\<close>

text \<open>
  Claim C10. In a state with no signed-in user, \<open>toggleHabit\<close>,
  \<open>handleOnboardingSubmit\<close> and \<open>resetWeek\<close> return at once: the world after the call is
  the world before it, so no request was sent and the habits, the tracker, the onboarding
  flag and the input slots are unchanged.
\<close>

theorem no_user_no_effect:
  assumes "user (app w) = None"
  shows "toggleHabit tza n habitId day w = Inr w
         \<and> handleOnboardingSubmit tza now n w = w
         \<and> resetWeek n1 n2 w = w"
  using assms by (simp add: toggleHabit_def handleOnboardingSubmit_def resetWeek_def)

theorem no_user_no_effect_witness:
  "user (app freshWorld) = None
   \<and> toggleHabit 0 Up ''0'' ''Monday'' freshWorld = Inr freshWorld
   \<and> handleOnboardingSubmit 0 exampleClock Up freshWorld = freshWorld
   \<and> resetWeek Up Up freshWorld = freshWorld"
proof -
  have u: "user (app freshWorld) = None"
    by (simp add: freshWorld_def initialState_def)
  from no_user_no_effect [OF u] u show ?thesis by simp
qed

section \<open>Signing out\<close>

text \<open>
  Claim C9 says that signing out puts the habit list, the tracker, the onboarding flag
  and the five input slots back to their initial values. The listener resets the first
  three and does not touch the input slots: signing out of the tracking example leaves the
  five typed names in the form, where \<open>resetWeek\<close> blanks them.
\<close>

theorem signOut_keeps_inputs:
  "habitInputs (app (signOut 0 exampleClock None trackingWorld)) = typedInputs
   \<and> typedInputs \<noteq> blankInputs
   \<and> user (app (signOut 0 exampleClock None trackingWorld)) = None
   \<and> habits (app (signOut 0 exampleClock None trackingWorld)) = []
   \<and> tracker (app (signOut 0 exampleClock None trackingWorld)) = Map.empty
   \<and> isOnboarding (app (signOut 0 exampleClock None trackingWorld))"
  by (simp add: signOut_def onAuthStateChange_def setApp_def trackingWorld_def
        typedInputs_def blankInputs_def)

section \<open>The start of the week\<close>

text \<open>
  Claim C8 says that on a Sunday \<open>getCurrentWeekStart\<close> returns the Monday six days
  before, and in general the latest Monday on or before the current date. The day of the
  week is read in local time and the result is written in UTC. One hour east of UTC, on
  Sunday 2024-01-07 at 00:30 local time, the function returns 2023-12-31, a Sunday.
\<close>

theorem week_start_off_utc:
  "getCurrentWeekStart 3600000 1704583800000 = Inr ''2023-12-31''
   \<and> getDay 3600000 (Some 1704583800000) = Some 0
   \<and> isoDate (Some (1704583800000 + 3600000)) = Inr ''2024-01-07''
   \<and> map_option WeekDay (Date_parse ''2023-12-31'') = Some 0"
  by code_simp

section \<open>Facts about double precision arithmetic\<close>

text \<open>
  Rounding to the nearest double never passes an integer below \<open>2^52\<close>, so a quotient
  of a count by a larger count stays in \<open>[0, 1]\<close> and its percentage in \<open>[0, 100]\<close>.
\<close>

lemma rne_le: "x \<le> of_int n \<Longrightarrow> rne x \<le> n"
proof -
  assume a: "x \<le> of_int n"
  then have f: "\<lfloor>x\<rfloor> \<le> n" by (simp add: floor_le_iff)
  show ?thesis
  proof (cases "\<lfloor>x\<rfloor> = n")
    case True
    then have "x = of_int n" using a by (metis of_int_floor_le order_antisym)
    then show ?thesis by (simp add: rne_def)
  next
    case False
    with f have "\<lfloor>x\<rfloor> + 1 \<le> n" by simp
    then show ?thesis by (simp add: rne_def Let_def)
  qed
qed

lemma rne_nonneg: "0 \<le> x \<Longrightarrow> 0 \<le> rne x"
  by (simp add: rne_def Let_def)

lemma ilog2_le:
  assumes "0 < x"
  shows "2 powi (ilog2 x) \<le> x"
proof -
  obtain p q where pq: "quotient_of x = (p, q)" by (cases "quotient_of x")
  have q: "0 < q" using quotient_of_denom_pos [OF pq] .
  have x: "x = of_int p / of_int q" using quotient_of_div [OF pq] .
  have p: "0 < p" using assms q x by (simp add: zero_less_divide_iff)
  define d where "d = bitlen p - bitlen q"
  show ?thesis
  proof (cases "(2::rat) powi d \<le> x")
    case True
    then show ?thesis by (simp add: ilog2_def pq d_def)
  next
    case False
    have bp: "2 ^ nat (bitlen p - 1) \<le> p" using bitlen_bounds [OF p] by simp
    have bq: "q < 2 ^ nat (bitlen q)" using bitlen_bounds [OF q] by simp
    have p1: "1 \<le> bitlen p" using p by (simp add: bitlen_alt_def)
    have q1: "1 \<le> bitlen q" using q by (simp add: bitlen_alt_def)
    have "(2::rat) powi (d - 1) = 2 powi (bitlen p - 1) / 2 powi (bitlen q)"
      by (simp add: d_def power_int_diff)
    also have "\<dots> = 2 ^ nat (bitlen p - 1) / 2 ^ nat (bitlen q)"
      using p1 q1 by (simp add: power_int_nonneg_exp)
    also have "\<dots> \<le> of_int p / 2 ^ nat (bitlen q)"
    proof -
      have "(2::rat) ^ nat (bitlen p - 1) \<le> of_int p"
        using bp by (metis of_int_le_iff of_int_numeral of_int_power)
      then show ?thesis by (simp add: divide_right_mono)
    qed
    also have "\<dots> \<le> of_int p / of_int q"
    proof -
      have "of_int q \<le> (2::rat) ^ nat (bitlen q)"
        using bq by (metis less_imp_le of_int_le_iff of_int_numeral of_int_power)
      then show ?thesis using p q by (simp add: divide_left_mono)
    qed
    finally have "(2::rat) powi (d - 1) \<le> x" using x by simp
    then show ?thesis using False by (simp add: ilog2_def pq d_def)
  qed
qed

lemma fl_nonneg: "0 \<le> fl x"
proof (cases "x \<le> 0")
  case True
  then show ?thesis by (simp add: fl_def)
next
  case False
  then have "0 \<le> x / 2 powi (ilog2 x - 52)" by simp
  then have "0 \<le> rne (x / 2 powi (ilog2 x - 52))" by (rule rne_nonneg)
  then show ?thesis using False by (simp add: fl_def Let_def)
qed

lemma fl_le:
  assumes "x \<le> of_int B" "0 \<le> B" "B < 2 ^ 52"
  shows "fl x \<le> of_int B"
proof (cases "x \<le> 0")
  case True
  then show ?thesis using assms by (simp add: fl_def)
next
  case False
  then have xp: "0 < x" by simp
  define e where "e = ilog2 x"
  have "(2::rat) powi e \<le> x" unfolding e_def using ilog2_le [OF xp] .
  also have "x \<le> of_int B" by fact
  also have "(of_int B :: rat) < 2 ^ 52"
    using assms(3) by (metis of_int_less_iff of_int_numeral of_int_power)
  finally have "(2::rat) powi e < 2 powi 52" by simp
  then have e52: "e < 52"
    using power_int_le_imp_less_exp [of "2::rat" e 52] by simp
  define k where "k = nat (52 - e)"
  have u: "(2::rat) powi (e - 52) = 1 / 2 ^ k"
  proof -
    have "e - 52 = - int k" using e52 by (simp add: k_def)
    then show ?thesis by (simp add: power_int_minus_divide)
  qed
  have "x / (2 powi (e - 52)) = x * 2 ^ k" by (simp add: u)
  also have "\<dots> \<le> of_int B * 2 ^ k" using assms(1) by simp
  also have "\<dots> = of_int (B * 2 ^ k)" by simp
  finally have "rne (x / (2 powi (e - 52))) \<le> B * 2 ^ k" by (rule rne_le)
  then have "(of_int (rne (x / (2 powi (e - 52)))) :: rat) \<le> of_int (B * 2 ^ k)"
    by (simp only: of_int_le_iff)
  then have "of_int (rne (x / (2 powi (e - 52)))) * (1 / 2 ^ k) \<le> (of_int B :: rat)"
    by (simp add: field_simps)
  then show ?thesis
    using False by (simp add: fl_def Let_def e_def [symmetric] u)
qed

lemma percent_range:
  assumes "0 \<le> c" "c \<le> t" "0 < t"
  shows "0 \<le> percent c t \<and> percent c t \<le> 100"
proof -
  have "(of_int c :: rat) / of_int t \<le> of_int 1" using assms by simp
  then have d1: "fdiv c t \<le> 1" unfolding fdiv_def using fl_le [of _ 1] by simp
  have d0: "0 \<le> fdiv c t" by (simp add: fdiv_def fl_nonneg)
  have "fdiv c t * of_int 100 \<le> of_int 100" using d1 by simp
  then have m1: "fmul (fdiv c t) 100 \<le> 100" unfolding fmul_def using fl_le [of _ 100] by simp
  have m0: "0 \<le> fmul (fdiv c t) 100" by (simp add: fmul_def fl_nonneg)
  show ?thesis
    using m0 m1 by (simp add: percent_def Math_round_def le_floor_iff floor_le_iff)
qed

text \<open>
  For the denominators \<open>35\<close> and \<open>7\<close> the rounded computation gives the exactly
  rounded percentage at every count.
\<close>

lemma percent_35:
  "\<forall>c \<in> set [0..<36]. percent (int c) 35 = Math_round (100 * of_nat c / (5 * 7))"
  by code_simp

lemma percent_7:
  "\<forall>c \<in> set [0..<8]. percent (int c) 7 = Math_round (100 * of_nat c / 7)"
  by code_simp

section \<open>Onboarding\<close>

lemma filter_trim_all:
  "\<forall>x \<in> set xs. trim x \<noteq> [] \<Longrightarrow> filter (\<lambda>habit. trim habit \<noteq> []) xs = xs"
  by (induction xs) auto

lemma snd_zip_upt: "map (\<lambda>x. f (snd x)) (zip [0..<length rows] rows) = map f rows"
proof -
  have "map (\<lambda>x. f (snd x)) (zip [0..<length rows] rows)
        = map f (map snd (zip [0..<length rows] rows))"
    by (simp only: map_map comp_def)
  then show ?thesis by simp
qed

lemma newHabitRows_names: "map h_name (newHabitRows n rows) = map snd rows"
  by (simp add: newHabitRows_def split_beta comp_def snd_zip_upt)

lemma newHabitRows_users: "map h_user_id (newHabitRows n rows) = map fst rows"
  by (simp add: newHabitRows_def split_beta comp_def snd_zip_upt)

lemma newHabitRows_length: "length (newHabitRows n rows) = length rows"
  by (simp add: newHabitRows_def)

lemma typed_nonblank: "\<forall>x \<in> set typedInputs. trim x \<noteq> []"
  unfolding typedInputs_def by code_simp

lemma partial_count:
  "length (filter (\<lambda>x. trim x \<noteq> []) [''read'', ''  '', [], ''cook'', ''code'']) = 3"
  by code_simp

text \<open>
  Claim C3. A user is signed in, the clock reads a time a date can hold, and the request
  reaches the store. If the five input slots hold five names that are not empty after
  trimming, \<open>handleOnboardingSubmit\<close> sends one insert of five rows whose names are the
  trimmed inputs, the store appends five rows with these names for this user, the habit
  list becomes the rows the store returned, the tracker becomes empty and onboarding
  ends. If fewer than five names are not empty after trimming, the world is unchanged:
  onboarding stays as it was and no request is sent.
\<close>

theorem onboarding_submit:
  "(user (app w) = Some u \<and> length (habitInputs (app w)) = 5
      \<and> (\<forall>x \<in> set (habitInputs (app w)). trim x \<noteq> [])
      \<and> - 8640000000000000 + 6 * msPerDay \<le> now \<and> now \<le> 8640000000000000
    \<longrightarrow> (\<exists>rows. wire (handleOnboardingSubmit tza now Up w)
                     = wire w @ [InsertHabits (map (\<lambda>x. (u, trim x)) (habitInputs (app w)))]
              \<and> habits_tbl (remote (handleOnboardingSubmit tza now Up w))
                     = habits_tbl (remote w) @ rows
              \<and> length rows = 5
              \<and> map h_name rows = map trim (habitInputs (app w))
              \<and> (\<forall>h \<in> set rows. h_user_id h = u)
              \<and> habits (app (handleOnboardingSubmit tza now Up w)) = rows
              \<and> tracker (app (handleOnboardingSubmit tza now Up w)) = Map.empty
              \<and> \<not> isOnboarding (app (handleOnboardingSubmit tza now Up w))))
   \<and> (length (filter (\<lambda>x. trim x \<noteq> []) (habitInputs (app w))) < 5
    \<longrightarrow> handleOnboardingSubmit tza now n w = w)"
proof (intro conjI impI)
  assume a: "user (app w) = Some u \<and> length (habitInputs (app w)) = 5
      \<and> (\<forall>x \<in> set (habitInputs (app w)). trim x \<noteq> [])
      \<and> - 8640000000000000 + 6 * msPerDay \<le> now \<and> now \<le> 8640000000000000"
  define ins where "ins = habitInputs (app w)"
  define rows where "rows = newHabitRows (next_id (remote w)) (map (\<lambda>x. (u, trim x)) ins)"
  from a have f: "filter (\<lambda>habit. trim habit \<noteq> []) ins = ins"
    by (simp add: filter_trim_all ins_def)
  from a obtain ws where ws: "getCurrentWeekStart tza now = Inr ws"
    using getCurrentWeekStart_total [of now tza] by auto
  have r: "handleOnboardingSubmit tza now Up w =
      w\<lparr>remote := (remote w)\<lparr>habits_tbl := habits_tbl (remote w) @ rows,
                              next_id := next_id (remote w) + 5\<rparr>,
        wire := wire w @ [InsertHabits (map (\<lambda>x. (u, trim x)) ins)],
        app := (app w)\<lparr>habits := rows, tracker := Map.empty, weekStartDate := ws,
                       isOnboarding := False\<rparr>\<rparr>"
    using a f ws
    by (simp add: handleOnboardingSubmit_def await_def exec_def setApp_def Let_def
          ins_def [symmetric] rows_def)
  have "length rows = 5" using a by (simp add: rows_def newHabitRows_length ins_def)
  moreover have "map h_name rows = map trim ins"
    by (simp add: rows_def newHabitRows_names comp_def)
  moreover have "map h_user_id rows = map (\<lambda>x. u) ins"
    by (simp add: rows_def newHabitRows_users comp_def)
  then have "\<forall>h \<in> set rows. h_user_id h = u"
    by (auto simp: list_eq_iff_nth_eq in_set_conv_nth)
  ultimately show "\<exists>rows. wire (handleOnboardingSubmit tza now Up w)
                     = wire w @ [InsertHabits (map (\<lambda>x. (u, trim x)) (habitInputs (app w)))]
              \<and> habits_tbl (remote (handleOnboardingSubmit tza now Up w))
                     = habits_tbl (remote w) @ rows
              \<and> length rows = 5
              \<and> map h_name rows = map trim (habitInputs (app w))
              \<and> (\<forall>h \<in> set rows. h_user_id h = u)
              \<and> habits (app (handleOnboardingSubmit tza now Up w)) = rows
              \<and> tracker (app (handleOnboardingSubmit tza now Up w)) = Map.empty
              \<and> \<not> isOnboarding (app (handleOnboardingSubmit tza now Up w))"
    by (intro exI [of _ rows]) (simp add: r ins_def)
next
  assume "length (filter (\<lambda>x. trim x \<noteq> []) (habitInputs (app w))) < 5"
  then show "handleOnboardingSubmit tza now n w = w"
    by (simp add: handleOnboardingSubmit_def Let_def split: option.splits)
qed

theorem onboarding_submit_witness:
  "user (app onboardingWorld) = Some ''u1''
   \<and> length (habitInputs (app onboardingWorld)) = 5
   \<and> list_all (\<lambda>x. trim x \<noteq> []) (habitInputs (app onboardingWorld))
   \<and> (\<exists>rows. wire (handleOnboardingSubmit 0 exampleClock Up onboardingWorld)
                 = wire onboardingWorld
                   @ [InsertHabits (map (\<lambda>x. (''u1'', trim x)) (habitInputs (app onboardingWorld)))]
           \<and> habits_tbl (remote (handleOnboardingSubmit 0 exampleClock Up onboardingWorld))
                 = habits_tbl (remote onboardingWorld) @ rows
           \<and> length rows = 5
           \<and> map h_name rows = map trim (habitInputs (app onboardingWorld))
           \<and> list_all (\<lambda>h. h_user_id h = ''u1'') rows
           \<and> habits (app (handleOnboardingSubmit 0 exampleClock Up onboardingWorld)) = rows
           \<and> tracker (app (handleOnboardingSubmit 0 exampleClock Up onboardingWorld)) = Map.empty
           \<and> \<not> isOnboarding (app (handleOnboardingSubmit 0 exampleClock Up onboardingWorld)))
   \<and> length (filter (\<lambda>x. trim x \<noteq> []) (habitInputs (app partialWorld))) < 5
   \<and> handleOnboardingSubmit 0 exampleClock Up partialWorld = partialWorld"
proof -
  have h: "user (app onboardingWorld) = Some ''u1''
      \<and> length (habitInputs (app onboardingWorld)) = 5
      \<and> (\<forall>x \<in> set (habitInputs (app onboardingWorld)). trim x \<noteq> [])
      \<and> - 8640000000000000 + 6 * msPerDay \<le> exampleClock \<and> exampleClock \<le> 8640000000000000"
    using typed_nonblank
    by (simp add: onboardingWorld_def exampleClock_def msPerDay_def) (simp add: typedInputs_def)
  have p: "length (filter (\<lambda>x. trim x \<noteq> []) (habitInputs (app partialWorld))) < 5"
    using partial_count by (simp add: partialWorld_def onboardingWorld_def)
  show ?thesis
    unfolding list_all_iff
    using onboarding_submit [where w = onboardingWorld and u = "''u1''" and now = exampleClock
                               and tza = 0]
      onboarding_submit [where w = partialWorld and now = exampleClock and tza = 0 and n = Up]
      h p
    by blast
qed

section \<open>Toggling a cell\<close>






lemma monday_index: "indexOf DAYS ''Monday'' = 0"
  by (simp add: DAYS_def)

lemma monday_date: "dateStr 0 ''2024-01-01'' 0 = Inr ''2024-01-01''"
  by code_simp




text \<open>
  When the awaited request rejects, the handler logs the error and leaves the state as it
  was.
\<close>

lemma toggle_rejected:
  assumes "user (app w) = Some u"
    and "dateStr tza (weekStartDate (app w)) (indexOf DAYS day) = Inr ds"
  shows "toggleHabit tza Throws habitId day w
     = Inr (w\<lparr>wire := wire w @ [if cell (tracker (app w)) habitId day
                                  then DeleteEntry habitId u ds
                                  else InsertEntry habitId u ds True],
              console := console w @ [''Error toggling habit:'']\<rparr>)"
  using assms by (simp add: toggleHabit_def await_def exec_def log_error_def Let_def)

text \<open>
  Claim C2 says that a toggle whose remote call fails logs the error and leaves the
  tracker unchanged. The handler only catches a rejected promise. The store client
  reports a failure in the \<open>error\<close> field of the object it resolves to, which the loading
  and onboarding handlers inspect and the toggle does not: when the insert of the
  tracking example does not reach the store, the cell is flipped to true, nothing is
  logged and the store has no row.
\<close>

theorem toggle_failed_flips:
  "toggleHabit 0 Down ''0'' ''Monday'' trackingWorld
     = Inr (trackingWorld
              \<lparr>app := (app trackingWorld)\<lparr>tracker := [''0'' \<mapsto> [''Monday'' \<mapsto> True]]\<rparr>,
               wire := wire trackingWorld @ [InsertEntry ''0'' ''u1'' ''2024-01-01'' True]\<rparr>)
   \<and> \<not> cell (tracker (app trackingWorld)) ''0'' ''Monday''
   \<and> cell [''0'' \<mapsto> [''Monday'' \<mapsto> True]] ''0'' ''Monday''
   \<and> exec Down (InsertEntry ''0'' ''u1'' ''2024-01-01'' True) (remote trackingWorld)
       = (Failed ''Failed to fetch'', remote trackingWorld)
   \<and> console trackingWorld = []"
  by (simp add: toggleHabit_def trackingWorld_def monday_index monday_date cell_def
        await_def exec_def setApp_def flipCell_def)

section \<open>Resetting\<close>

lemma resetWeek_Up:
  assumes "user (app w) = Some u"
  shows "resetWeek Up Up w =
     w\<lparr>app := (app w)\<lparr>isOnboarding := True, habits := [], tracker := Map.empty,
                        habitInputs := blankInputs\<rparr>,
       remote := (remote w)\<lparr>entries_tbl := filter (\<lambda>e. e_user_id e \<noteq> u) (entries_tbl (remote w)),
                             habits_tbl := filter (\<lambda>h. h_user_id h \<noteq> u) (habits_tbl (remote w))\<rparr>,
       wire := wire w @ [DeleteEntries u, DeleteHabits u]\<rparr>"
  using assms by (simp add: resetWeek_def await_def exec_def setApp_def)

text \<open>
  Claim C7. For a signed-in user and any store, when both requests reach the store,
  \<open>resetWeek\<close> sends the delete of the user's entries and then the delete of the user's
  habits, after which neither table holds a row of that user, and it puts the state back
  to onboarding with no habits, an empty tracker and five blank input slots.
\<close>

theorem resetWeek_clears:
  assumes "user (app w) = Some u"
  shows "wire (resetWeek Up Up w) = wire w @ [DeleteEntries u, DeleteHabits u]
       \<and> filter (\<lambda>e. e_user_id e = u) (entries_tbl (remote (resetWeek Up Up w))) = []
       \<and> filter (\<lambda>h. h_user_id h = u) (habits_tbl (remote (resetWeek Up Up w))) = []
       \<and> isOnboarding (app (resetWeek Up Up w))
       \<and> habits (app (resetWeek Up Up w)) = []
       \<and> tracker (app (resetWeek Up Up w)) = Map.empty
       \<and> habitInputs (app (resetWeek Up Up w)) = [[], [], [], [], []]"
  by (simp add: resetWeek_Up [OF assms] blankInputs_def filter_empty_conv)

theorem resetWeek_clears_witness:
  "user (app busyWorld) = Some ''u1''
   \<and> wire (resetWeek Up Up busyWorld) = wire busyWorld @ [DeleteEntries ''u1'', DeleteHabits ''u1'']
   \<and> filter (\<lambda>e. e_user_id e = ''u1'') (entries_tbl (remote (resetWeek Up Up busyWorld))) = []
   \<and> filter (\<lambda>h. h_user_id h = ''u1'') (habits_tbl (remote (resetWeek Up Up busyWorld))) = []
   \<and> entries_tbl (remote (resetWeek Up Up busyWorld))
       = [\<lparr>e_habit_id = ''5'', e_user_id = ''u2'', e_date = ''2024-01-01'', e_completed = True\<rparr>]
   \<and> habits_tbl (remote (resetWeek Up Up busyWorld)) = [otherHabit]
   \<and> isOnboarding (app (resetWeek Up Up busyWorld))
   \<and> habits (app (resetWeek Up Up busyWorld)) = []
   \<and> tracker (app (resetWeek Up Up busyWorld)) = Map.empty
   \<and> habitInputs (app (resetWeek Up Up busyWorld)) = [[], [], [], [], []]"
proof -
  have u: "user (app busyWorld) = Some ''u1''"
    by (simp add: busyWorld_def trackingWorld_def)
  have "entries_tbl (remote (resetWeek Up Up busyWorld))
       = [\<lparr>e_habit_id = ''5'', e_user_id = ''u2'', e_date = ''2024-01-01'', e_completed = True\<rparr>]"
    by (simp add: resetWeek_Up [OF u]) (simp add: busyWorld_def exampleEntries_def)
  moreover have "habits_tbl (remote (resetWeek Up Up busyWorld)) = [otherHabit]"
    by (simp add: resetWeek_Up [OF u]) (simp add: busyWorld_def exampleHabits_def otherHabit_def)
  ultimately show ?thesis
    using resetWeek_clears [OF u] u by simp
qed

section \<open>Loading the entries of the week\<close>

lemma fillDays_fold:
  assumes "\<forall>i \<in> set is. \<exists>ds. dateStr tza ws (int i) = Inr ds"
  shows "fillDays tza ws ed hid is m
         = Inr (fold (\<lambda>i m. m(DAYS ! i \<mapsto> dayValue tza ws ed hid i)) is m)"
  using assms
proof (induction "is" arbitrary: m)
  case Nil
  then show ?case by simp
next
  case (Cons i "is")
  from Cons.prems obtain ds where ds: "dateStr tza ws (int i) = Inr ds" by auto
  have dv: "(case (case ed of None \<Rightarrow> None
                   | Some es \<Rightarrow> find (\<lambda>e. e_habit_id e = hid \<and> e_date e = ds) es) of
               None \<Rightarrow> False
             | Some e \<Rightarrow> e_completed e) = dayValue tza ws ed hid i"
    using ds by (simp add: dayValue_def)
  have "fillDays tza ws ed hid (i # is) m
        = fillDays tza ws ed hid is (m(DAYS ! i \<mapsto> dayValue tza ws ed hid i))"
    by (simp only: fillDays.simps ds sum.case Let_def dv)
  also have "\<dots> = Inr (fold (\<lambda>i m. m(DAYS ! i \<mapsto> dayValue tza ws ed hid i)) is
                 (m(DAYS ! i \<mapsto> dayValue tza ws ed hid i)))"
    using Cons.prems by (intro Cons.IH) simp
  finally show ?case by (simp only: fold.simps o_apply)
qed

lemma week_indices: "[0..<length DAYS] = [0, 1, 2, 3, 4, 5, 6]"
  by (simp add: DAYS_def upt_rec)

lemma fillDays_week:
  assumes "\<forall>i < 7. \<exists>ds. dateStr tza ws (int i) = Inr ds"
  shows "fillDays tza ws ed hid [0..<length DAYS] Map.empty = Inr (weekOf tza ws ed hid)"
proof -
  have "\<forall>i \<in> set [0, 1, 2, 3, 4, 5, 6::nat]. i < 7"
    by simp
  with assms have "\<forall>i \<in> set [0, 1, 2, 3, 4, 5, 6::nat]. \<exists>ds. dateStr tza ws (int i) = Inr ds"
    by blast
  then show ?thesis
    unfolding week_indices
    by (subst fillDays_fold) (simp_all add: DAYS_def weekOf_def)
qed

lemma weekOf_dom: "dom (weekOf tza ws ed hid) = set DAYS"
  by (auto simp: weekOf_def DAYS_def)

lemma weekOf_day: "i < 7 \<Longrightarrow> weekOf tza ws ed hid (DAYS ! i) = Some (dayValue tza ws ed hid i)"
proof -
  assume "i < 7"
  then have "i \<in> {0, 1, 2, 3, 4, 5, 6}" by auto
  then show ?thesis
    by (auto simp: weekOf_def DAYS_def)
qed

lemma fillHabits_fold:
  assumes "\<forall>i < 7. \<exists>ds. dateStr tza ws (int i) = Inr ds"
  shows "fillHabits tza ws ed hs tr
         = Inr (fold (\<lambda>h tr. tr(h_id h \<mapsto> weekOf tza ws ed (h_id h))) hs tr)"
proof (induction hs arbitrary: tr)
  case Nil
  then show ?case by simp
next
  case (Cons h hs)
  then show ?case
    by (simp add: fillDays_week [OF assms])
qed

lemma fold_tracker_dom:
  "dom (fold (\<lambda>h tr. tr(h_id h \<mapsto> f (h_id h))) hs tr) = dom tr \<union> h_id ` set hs"
  by (induction hs arbitrary: tr) auto

lemma fold_tracker_lookup:
  "fold (\<lambda>h tr. tr(h_id h \<mapsto> f (h_id h))) hs tr k
     = (if k \<in> h_id ` set hs then Some (f k) else tr k)"
  by (induction hs arbitrary: tr) auto

lemma dateStr_week:
  assumes "dateStr tza ws 6 = Inr weekEnd"
  shows "\<forall>i < 7. \<exists>ds. dateStr tza ws (int i) = Inr ds"
proof (intro allI impI)
  fix i :: nat
  assume i: "i < 7"
  obtain t0 where t0: "Date_parse ws = Some t0"
    using assms dateStr_invalid [of ws tza 6] by (cases "Date_parse ws") auto
  have "TimeClip (t0 + 6 * msPerDay) \<noteq> None"
    using assms dateStr_parse [OF t0, of tza 6] isoDate_None
    by (cases "TimeClip (t0 + 6 * msPerDay)") auto
  then have hi: "t0 + 6 * msPerDay \<le> 8640000000000000"
    by (auto simp: TimeClip_def split: if_splits)
  have lo: "- 8640000000000000 \<le> t0"
    using Date_parse_range [OF t0] by simp
  have "0 \<le> int i * msPerDay \<and> int i * msPerDay \<le> 6 * msPerDay"
    using i by (simp add: msPerDay_def)
  with hi lo have "TimeClip (t0 + int i * msPerDay) = Some (t0 + int i * msPerDay)"
    by (auto simp: TimeClip_def abs_le_iff)
  then show "\<exists>ds. dateStr tza ws (int i) = Inr ds"
    using isoDate_Some by (simp add: dateStr_parse [OF t0])
qed

lemma loadHabitEntries_rows:
  assumes "dateStr tza weekStart 6 = Inr weekEnd"
    and "exec n (SelectEntries cu weekStart weekEnd) (remote w) = (EntryRows es, d)"
  shows "tracker (app (loadHabitEntries tza cu n userHabits weekStart w))
         = fold (\<lambda>h tr. tr(h_id h \<mapsto> weekOf tza weekStart (Some es) (h_id h))) userHabits Map.empty"
  using assms
  by (simp add: loadHabitEntries_def await_def setApp_def
        fillHabits_fold [OF dateStr_week [OF assms(1)]])

lemma sunday_date: "dateStr 0 ''2024-01-01'' 6 = Inr ''2024-01-07''"
  by code_simp

text \<open>
  What the loop of \<open>loadHabitEntries\<close> builds from the rows of a query that resolved:
  a tracker with exactly the identifiers of the given habits as keys, each key mapping
  exactly the seven day names to the \<open>completed\<close> flag of the first row for that habit
  and that day's date, and to false when there is no such row. This is the shape that the
  loop is written to establish; the requirement on the query is that the user filter is
  defined.
\<close>

lemma loadHabitEntries_shape:
  assumes "dateStr tza weekStart 6 = Inr weekEnd"
    and "exec n (SelectEntries cu weekStart weekEnd) (remote w) = (EntryRows es, d)"
  shows "dom (tracker (app (loadHabitEntries tza cu n userHabits weekStart w)))
           = h_id ` set userHabits
       \<and> (\<forall>h \<in> set userHabits.
             \<exists>days. tracker (app (loadHabitEntries tza cu n userHabits weekStart w)) (h_id h)
                       = Some days
                  \<and> dom days = set DAYS
                  \<and> (\<forall>i < 7. \<exists>ds. dateStr tza weekStart (int i) = Inr ds
                         \<and> days (DAYS ! i)
                             = Some (case find (\<lambda>e. e_habit_id e = h_id h \<and> e_date e = ds) es of
                                       None \<Rightarrow> False
                                     | Some e \<Rightarrow> e_completed e)))"
proof -
  let ?t = "tracker (app (loadHabitEntries tza cu n userHabits weekStart w))"
  note t = loadHabitEntries_rows [OF assms, of userHabits]
  have keys: "dom ?t = h_id ` set userHabits"
    by (simp add: t fold_tracker_dom)
  have rows: "\<exists>days. ?t (h_id h) = Some days \<and> dom days = set DAYS
                  \<and> (\<forall>i < 7. \<exists>ds. dateStr tza weekStart (int i) = Inr ds
                         \<and> days (DAYS ! i)
                             = Some (case find (\<lambda>e. e_habit_id e = h_id h \<and> e_date e = ds) es of
                                       None \<Rightarrow> False
                                     | Some e \<Rightarrow> e_completed e))"
    if h: "h \<in> set userHabits" for h
  proof -
    have "\<forall>i < 7. \<exists>ds. dateStr tza weekStart (int i) = Inr ds
            \<and> weekOf tza weekStart (Some es) (h_id h) (DAYS ! i)
                = Some (case find (\<lambda>e. e_habit_id e = h_id h \<and> e_date e = ds) es of
                          None \<Rightarrow> False
                        | Some e \<Rightarrow> e_completed e)"
    proof (intro allI impI)
      fix i :: nat
      assume i: "i < 7"
      then obtain ds where ds: "dateStr tza weekStart (int i) = Inr ds"
        using dateStr_week [OF assms(1)] by blast
      then show "\<exists>ds. dateStr tza weekStart (int i) = Inr ds
            \<and> weekOf tza weekStart (Some es) (h_id h) (DAYS ! i)
                = Some (case find (\<lambda>e. e_habit_id e = h_id h \<and> e_date e = ds) es of
                          None \<Rightarrow> False
                        | Some e \<Rightarrow> e_completed e)"
        by (intro exI [of _ ds]) (simp add: weekOf_day [OF i] dayValue_def)
    qed
    moreover have "?t (h_id h) = Some (weekOf tza weekStart (Some es) (h_id h))"
      using h by (simp add: t fold_tracker_lookup)
    moreover have "dom (weekOf tza weekStart (Some es) (h_id h)) = set DAYS"
      by (rule weekOf_dom)
    ultimately show ?thesis by blast
  qed
  from keys rows show ?thesis by blast
qed

lemma returning_load:
  "loadedWorld
     = returningWorld
         \<lparr>app := initialState\<lparr>user := Some ''u1'', isOnboarding := False,
                                  habits := exampleHabits, weekStartDate := ''2024-01-01''\<rparr>,
          console := [''Error loading habit entries:''],
          wire := [SelectHabits ''u1'', SelectEntries None ''2024-01-01'' ''2024-01-07'']\<rparr>"
  by (simp add: loadedWorld_def onAuthStateChange_def loadUserHabits_def loadHabitEntries_def
        await_def exec_def setApp_def log_error_def returningWorld_def initialState_def
        clock_week sunday_date exampleHabits_def otherHabit_def Let_def)

text \<open>
  Claim C5 says that in every state with onboarding complete the tracker has one key for
  each habit, each mapping the seven day names to booleans. An ordinary load breaks it.
  The user of the example comes back: the store holds the five habits and two completed
  entries of the week. The listener loads the habits and ends onboarding; the entries
  query is then sent with the user filter undefined, the store refuses it, the error is
  logged and no tracker is installed. Onboarding is complete, there are five habits and
  the tracker has no key; the cell of the first habit on Monday reads false although its
  completed row is in the store.
\<close>

theorem load_leaves_tracker_empty:
  "user (app loadedWorld) = Some ''u1''
   \<and> \<not> isOnboarding (app loadedWorld)
   \<and> habits (app loadedWorld) = exampleHabits
   \<and> length (habits (app loadedWorld)) = 5
   \<and> dom (tracker (app loadedWorld)) = {}
   \<and> \<not> cell (tracker (app loadedWorld)) ''0'' ''Monday''
   \<and> entries_tbl (remote loadedWorld) = exampleEntries
   \<and> hd exampleEntries
       = \<lparr>e_habit_id = ''0'', e_user_id = ''u1'', e_date = ''2024-01-01'', e_completed = True\<rparr>
   \<and> console loadedWorld = [''Error loading habit entries:'']
   \<and> wire loadedWorld
       = [SelectHabits ''u1'', SelectEntries None ''2024-01-01'' ''2024-01-07'']"
  by (simp add: returning_load)
    (simp add: returningWorld_def initialState_def exampleHabits_def exampleEntries_def cell_def)

text \<open>
  Right after a successful onboarding submission the tracker has no key either:
  \<open>handleOnboardingSubmit\<close> installs the empty tracker.
\<close>

lemma tracker_empty_after_onboarding:
  "\<not> isOnboarding (app (handleOnboardingSubmit 0 exampleClock Up onboardingWorld))
   \<and> length (habits (app (handleOnboardingSubmit 0 exampleClock Up onboardingWorld))) = 5
   \<and> dom (tracker (app (handleOnboardingSubmit 0 exampleClock Up onboardingWorld))) = {}"
  by (simp add: onboarding_example) (simp add: trackingWorld_def exampleHabits_def)

section \<open>The weekly progress\<close>

lemma foldl_flags:
  "foldl (\<lambda>daySum day. daySum + (if P day then 1 else 0)) a xs
     = a + int (length (filter P xs))"
  by (induction xs arbitrary: a) auto

lemma foldl_sum: "foldl (\<lambda>sum x. sum + int (f x)) a xs = a + int (sum_list (map f xs))"
  by (induction xs arbitrary: a) auto

lemma totalCompleted_cells:
  "foldl (\<lambda>sum habit.
            sum + foldl (\<lambda>daySum day.
                           daySum + (if cell (tracker s) (h_id habit) day then 1 else 0))
                        0 DAYS)
         0 (habits s) = int (completedCells s)"
  by (simp add: foldl_flags foldl_sum completedCells_def)

lemma sum_list_bound: "(\<forall>x \<in> set xs. f x \<le> (k::nat)) \<Longrightarrow> sum_list (map f xs) \<le> k * length xs"
  by (induction xs) auto

lemma completedCells_le: "completedCells s \<le> 7 * length (habits s)"
proof -
  have "\<forall>habit \<in> set (habits s). length (filter (cell (tracker s) (h_id habit)) DAYS) \<le> 7"
  proof
    fix habit
    have "length (filter (cell (tracker s) (h_id habit)) DAYS) \<le> length DAYS"
      by (rule length_filter_le)
    then show "length (filter (cell (tracker s) (h_id habit)) DAYS) \<le> 7"
      by (simp add: DAYS_def)
  qed
  then show ?thesis
    unfolding completedCells_def by (rule sum_list_bound)
qed

lemma getWeeklyProgress_eq:
  "getWeeklyProgress s =
     (if habits s = [] then 0
      else percent (int (completedCells s)) (int (length (habits s)) * 7))"
  by (simp add: getWeeklyProgress_def totalCompleted_cells Let_def)

lemma one_habit_cells: "completedCells oneHabitState = 7"
  by (simp add: completedCells_def oneHabitState_def DAYS_def cell_def allWeek_def)

lemma busy_cells: "completedCells (app busyWorld) = 2"
  by (simp add: completedCells_def busyWorld_def trackingWorld_def exampleHabits_def
        exampleTracker_def DAYS_def cell_def)

text \<open>
  Claim C4, as amended. For every tracker and every list of exactly five habits,
  \<open>getWeeklyProgress\<close> is the completed cells times 100 over \<open>5 * 7\<close>, rounded to the
  nearest integer. For every habit list it is the percentage, in double arithmetic, of
  the completed cells among seven cells for each listed habit, an integer from 0 to 100,
  and it is 0 when the list is empty.
\<close>

theorem weekly_progress:
  "(length (habits s) = 5
      \<longrightarrow> getWeeklyProgress s = Math_round (100 * of_nat (completedCells s) / (5 * 7)))
   \<and> getWeeklyProgress s
       = (if habits s = [] then 0
          else percent (int (completedCells s)) (int (length (habits s)) * 7))
   \<and> 0 \<le> getWeeklyProgress s \<and> getWeeklyProgress s \<le> 100
   \<and> (habits s = [] \<longrightarrow> getWeeklyProgress s = 0)"
proof (intro conjI impI)
  assume five: "length (habits s) = 5"
  then have "completedCells s \<in> set [0..<36]"
    using completedCells_le [of s] by simp
  then have "percent (int (completedCells s)) 35
             = Math_round (100 * of_nat (completedCells s) / (5 * 7))"
    using percent_35 by blast
  moreover have "habits s \<noteq> []" using five by auto
  ultimately show "getWeeklyProgress s = Math_round (100 * of_nat (completedCells s) / (5 * 7))"
    using five by (simp add: getWeeklyProgress_eq)
next
  show "getWeeklyProgress s
        = (if habits s = [] then 0
           else percent (int (completedCells s)) (int (length (habits s)) * 7))"
    by (rule getWeeklyProgress_eq)
next
  show "0 \<le> getWeeklyProgress s"
    using percent_range [of "int (completedCells s)" "int (length (habits s)) * 7"]
      completedCells_le [of s]
    by (simp add: getWeeklyProgress_eq)
next
  show "getWeeklyProgress s \<le> 100"
    using percent_range [of "int (completedCells s)" "int (length (habits s)) * 7"]
      completedCells_le [of s]
    by (simp add: getWeeklyProgress_eq)
next
  assume "habits s = []"
  then show "getWeeklyProgress s = 0" by (simp add: getWeeklyProgress_eq)
qed

theorem weekly_progress_witness:
  "length (habits (app busyWorld)) = 5
   \<and> getWeeklyProgress (app busyWorld) = Math_round (100 * of_nat 2 / (5 * 7))
   \<and> habits initialState = []
   \<and> getWeeklyProgress initialState = 0"
proof -
  have five: "length (habits (app busyWorld)) = 5"
    by (simp add: busyWorld_def trackingWorld_def exampleHabits_def)
  have none: "habits initialState = []"
    by (simp add: initialState_def)
  show ?thesis
    using weekly_progress [of "app busyWorld"] weekly_progress [of initialState] five none
    by (simp add: busy_cells)
qed

text \<open>
  The claim as stated, with the denominator \<open>5 * 7\<close> for every habit list, fails for a
  list of one habit done on all seven days: the progress is 100, the formula gives 20.
\<close>

theorem weekly_progress_one_habit:
  "getWeeklyProgress oneHabitState = 100
   \<and> completedCells oneHabitState = 7
   \<and> Math_round (100 * of_nat (completedCells oneHabitState) / (5 * 7)) = 20"
proof -
  have "percent 7 7 = 100" by code_simp
  moreover have "Math_round (100 * 7 / (5 * 7)) = 20" by code_simp
  ultimately show ?thesis
    by (simp add: getWeeklyProgress_eq one_habit_cells) (simp add: oneHabitState_def)
qed

section \<open>The export\<close>

lemma splitOn_append:
  "c \<notin> set x \<Longrightarrow> splitOn c (x @ c # rest) = x # splitOn c rest"
  by (induction x) auto

lemma splitOn_plain: "c \<notin> set x \<Longrightarrow> splitOn c x = [x]"
  by (induction x) auto

lemma splitOn_join:
  "\<forall>x \<in> set (y # ys). c \<notin> set x \<Longrightarrow> splitOn c (join [c] (y # ys)) = y # ys"
proof (induction ys arbitrary: y)
  case Nil
  then show ?case by (simp add: splitOn_plain)
next
  case (Cons z zs)
  have "splitOn c (join [c] (y # z # zs)) = y # splitOn c (join [c] (z # zs))"
    using Cons.prems splitOn_append [of c y "join [c] (z # zs)"] by simp
  also have "splitOn c (join [c] (z # zs)) = z # zs"
    using Cons.prems by (intro Cons.IH) simp
  finally show ?case .
qed

lemma set_join: "set (join sep xs) \<subseteq> set sep \<union> \<Union> (set ` set xs)"
  by (induction sep xs rule: join.induct) auto

lemma digit_is_digit: "digit n \<in> set ''0123456789''"
proof -
  have "n mod 10 < length ''0123456789''" by simp
  then show ?thesis unfolding digit_def by (rule nth_mem)
qed

lemma show_nat_digits: "set (show_nat n) \<subseteq> set ''0123456789''"
proof (induction n rule: show_nat.induct)
  case (1 n)
  show ?case
  proof (cases "n < 10")
    case True
    then show ?thesis using digit_is_digit [of n] by (subst show_nat.simps) simp
  next
    case False
    then show ?thesis
      using 1 digit_is_digit [of n] by (subst show_nat.simps) simp
  qed
qed

lemma show_int_plain:
  "0 \<le> i \<Longrightarrow> CHR '','' \<notin> set (show_int i) \<and> CHR 0x0A \<notin> set (show_int i)"
  using show_nat_digits [of "nat i"] by (auto simp: show_int_def)

lemma day_pairs:
  "zip DAYS [0..<length DAYS] =
     [(''Monday'', 0), (''Tuesday'', 1), (''Wednesday'', 2), (''Thursday'', 3),
      (''Friday'', 4), (''Saturday'', 5), (''Sunday'', 6)]"
  by (simp add: DAYS_def upt_rec)

lemma foldl_plus_map: "foldl (\<lambda>sum val. sum + val) a (map f xs) = foldl (\<lambda>sum x. sum + f x) a xs"
  by (induction xs arbitrary: a) auto

lemma statData_total:
  "foldl (\<lambda>sum val. sum + val) 0 (map (\<lambda>day. if cell tr (h_id habit) day then 1 else 0) DAYS)
     = fst (habitSummary tr habit)"
  by (simp add: habitSummary_def Let_def foldl_plus_map)

lemma statData_keys:
  "statData tr habit ''habit'' = Some (Str (h_name habit))
   \<and> statData tr habit ''total'' = Some (Num (fst (habitSummary tr habit)))
   \<and> statData tr habit ''percentage'' = Some (Num (snd (habitSummary tr habit)))
   \<and> map (statData tr habit) DAYS = map (\<lambda>day. Some (Num (flag tr habit day))) DAYS"
proof -
  define total where "total = fst (habitSummary tr habit)"
  have pct: "snd (habitSummary tr habit) = percent total 7"
    by (simp add: habitSummary_def Let_def total_def)
  have "statData tr habit =
     [''habit'' \<mapsto> Str (h_name habit), ''total'' \<mapsto> Num total,
      ''percentage'' \<mapsto> Num (percent total 7),
      ''Monday'' \<mapsto> Num (flag tr habit ''Monday''),
      ''Tuesday'' \<mapsto> Num (flag tr habit ''Tuesday''),
      ''Wednesday'' \<mapsto> Num (flag tr habit ''Wednesday''),
      ''Thursday'' \<mapsto> Num (flag tr habit ''Thursday''),
      ''Friday'' \<mapsto> Num (flag tr habit ''Friday''),
      ''Saturday'' \<mapsto> Num (flag tr habit ''Saturday''),
      ''Sunday'' \<mapsto> Num (flag tr habit ''Sunday'')]"
    unfolding statData_def Let_def statData_total day_pairs total_def [symmetric]
    by (simp add: DAYS_def flag_def)
  then show ?thesis
    by (simp add: pct total_def DAYS_def)
qed

lemma show_flag: "show_int (flag tr habit day) = (if cell tr (h_id habit) day then ''1'' else ''0'')"
proof -
  have "show_int 1 = ''1''" "show_int 0 = ''0''" by code_simp+
  then show ?thesis by (simp add: flag_def)
qed

lemma csvRow_fields: "csvRow (statData tr habit) = join '','' (rowFields tr habit)"
proof -
  have "map (\<lambda>day. toStr (statData tr habit day)) DAYS
        = map toStr (map (statData tr habit) DAYS)"
    by (simp only: map_map comp_def)
  also have "\<dots> = dayFields tr habit"
    by (simp add: statData_keys dayFields_def toStr_def show_flag comp_def)
  finally show ?thesis
    by (simp add: csvRow_def rowFields_def statData_keys toStr_def template_def)
qed

lemma downloadStats_lines:
  "fst (downloadStats s)
     = join [CHR 0x0A] (join '','' headerFields # map (\<lambda>h. join '','' (rowFields (tracker s) h)) (habits s))"
  by (simp add: downloadStats_def Let_def headerFields_def csvRow_fields comp_def)

lemma summary_range:
  "0 \<le> fst (habitSummary tr habit) \<and> fst (habitSummary tr habit) \<le> 7
   \<and> fst (habitSummary tr habit) = int (length (filter (cell tr (h_id habit)) DAYS))"
proof -
  have "fst (habitSummary tr habit) = int (length (filter (cell tr (h_id habit)) DAYS))"
    by (simp add: habitSummary_def Let_def foldl_flags)
  moreover have "length (filter (cell tr (h_id habit)) DAYS) \<le> length DAYS"
    by (rule length_filter_le)
  ultimately show ?thesis by (simp add: DAYS_def)
qed

lemma summary_percent:
  "snd (habitSummary tr habit) = Math_round (100 * of_int (fst (habitSummary tr habit)) / 7)
   \<and> 0 \<le> snd (habitSummary tr habit)"
proof -
  define c where "c = length (filter (cell tr (h_id habit)) DAYS)"
  have f: "fst (habitSummary tr habit) = int c"
    using summary_range [of tr habit] by (simp add: c_def)
  have "c \<in> set [0..<8]"
    using summary_range [of tr habit] f by simp
  then have "percent (int c) 7 = Math_round (100 * of_nat c / 7)"
    using percent_7 by blast
  moreover have "snd (habitSummary tr habit) = percent (int c) 7"
    using f by (simp add: habitSummary_def Let_def)
  moreover have "0 \<le> percent (int c) 7"
    using percent_range [of "int c" 7] summary_range [of tr habit] f by simp
  ultimately show ?thesis by (simp add: f)
qed

lemma header_plain:
  "\<forall>x \<in> set headerFields. CHR '','' \<notin> set x \<and> CHR 0x0A \<notin> set x"
  by (simp add: headerFields_def DAYS_def)

lemma row_plain:
  assumes "CHR '','' \<notin> set (h_name habit) \<and> CHR 0x0A \<notin> set (h_name habit)"
  shows "\<forall>x \<in> set (rowFields tr habit). CHR '','' \<notin> set x \<and> CHR 0x0A \<notin> set x"
  using assms show_int_plain [of "fst (habitSummary tr habit)"]
    show_int_plain [of "snd (habitSummary tr habit)"]
    summary_range [of tr habit] summary_percent [of tr habit]
  by (auto simp: rowFields_def dayFields_def)

lemma line_plain:
  assumes "\<forall>x \<in> set flds. CHR '','' \<notin> set x \<and> CHR 0x0A \<notin> set x"
  shows "CHR 0x0A \<notin> set (join '','' flds)"
  using assms set_join [of "'',''" flds] by auto

lemma readCsv_lines:
  assumes "\<forall>fs \<in> set (r # rows). fs \<noteq> [] \<and> (\<forall>x \<in> set fs. CHR '','' \<notin> set x \<and> CHR 0x0A \<notin> set x)"
  shows "readCsv (join [CHR 0x0A] (map (join '','') (r # rows))) = r # rows"
proof -
  have "\<forall>l \<in> set (map (join '','') (r # rows)). CHR 0x0A \<notin> set l"
    using assms line_plain by auto
  then have "splitOn (CHR 0x0A) (join [CHR 0x0A] (map (join '','') (r # rows)))
             = map (join '','') (r # rows)"
    using splitOn_join [of "join '','' r" "map (join '','') rows" "CHR 0x0A"] by simp
  moreover have "map (splitOn CHR '','') (map (join '','') (r # rows)) = r # rows"
  proof -
    have "\<forall>fs \<in> set (r # rows). splitOn CHR '','' (join '','' fs) = fs"
    proof
      fix fs assume m: "fs \<in> set (r # rows)"
      with assms have "fs \<noteq> []" by blast
      then obtain y ys where fs: "fs = y # ys" by (cases fs) auto
      have "\<forall>x \<in> set (y # ys). CHR '','' \<notin> set x" using assms m fs by auto
      then show "splitOn CHR '','' (join '','' fs) = fs"
        unfolding fs using splitOn_join [of y ys "CHR '',''"] by simp
    qed
    then show ?thesis by (simp add: map_idI)
  qed
  ultimately show ?thesis by (simp add: readCsv_def)
qed

text \<open>
  Claim C6, as amended. For every tracker and every habit list whose names contain no
  comma and no line feed, the exported file read back as comma-separated lines is the
  header \<open>Habit, Monday, ..., Sunday, Total, Percentage\<close> followed by one row for each
  habit, in order: the name, the seven day values \<open>1\<close> or \<open>0\<close>, the total and the
  percentage followed by a percent sign, where total and percentage are those of the
  habit's summary card, the count of true cells and that count times 100 over 7, rounded.
  The file is named \<open>habit-tracker-\<close>, the week start, \<open>.csv\<close>.
\<close>

theorem csv_export:
  assumes "\<forall>h \<in> set (habits s). CHR '','' \<notin> set (h_name h) \<and> CHR 0x0A \<notin> set (h_name h)"
  shows "readCsv (fst (downloadStats s))
           = (''Habit'' # DAYS @ [''Total'', ''Percentage''])
             # map (\<lambda>h. h_name h
                        # map (\<lambda>day. if cell (tracker s) (h_id h) day then ''1'' else ''0'') DAYS
                        @ [show_int (fst (habitSummary (tracker s) h)),
                           show_int (snd (habitSummary (tracker s) h)) @ ''%''])
                   (habits s)
       \<and> (\<forall>h \<in> set (habits s).
              fst (habitSummary (tracker s) h)
                = int (length (filter (cell (tracker s) (h_id h)) DAYS))
            \<and> snd (habitSummary (tracker s) h)
                = Math_round (100 * of_int (fst (habitSummary (tracker s) h)) / 7))
       \<and> snd (downloadStats s) = ''habit-tracker-'' @ weekStartDate s @ ''.csv''"
proof -
  let ?tr = "tracker s"
  have "\<forall>fs \<in> set (headerFields # map (rowFields ?tr) (habits s)).
          fs \<noteq> [] \<and> (\<forall>x \<in> set fs. CHR '','' \<notin> set x \<and> CHR 0x0A \<notin> set x)"
  proof
    fix fs
    assume "fs \<in> set (headerFields # map (rowFields ?tr) (habits s))"
    then consider "fs = headerFields" | h where "h \<in> set (habits s)" "fs = rowFields ?tr h"
      by auto
    then show "fs \<noteq> [] \<and> (\<forall>x \<in> set fs. CHR '','' \<notin> set x \<and> CHR 0x0A \<notin> set x)"
    proof cases
      case 1
      have "headerFields \<noteq> []" by (simp add: headerFields_def)
      with 1 header_plain show ?thesis by simp
    next
      case 2
      have "rowFields ?tr h \<noteq> []" by (simp add: rowFields_def)
      moreover have "\<forall>x \<in> set (rowFields ?tr h). CHR '','' \<notin> set x \<and> CHR 0x0A \<notin> set x"
        using assms 2(1) by (intro row_plain) blast
      ultimately show ?thesis using 2(2) by simp
    qed
  qed
  then have "readCsv (join [CHR 0x0A]
                 (map (join '','') (headerFields # map (rowFields ?tr) (habits s))))
             = headerFields # map (rowFields ?tr) (habits s)"
    by (rule readCsv_lines)
  then have "readCsv (fst (downloadStats s)) = headerFields # map (rowFields ?tr) (habits s)"
    by (simp add: downloadStats_lines comp_def)
  then have rows: "readCsv (fst (downloadStats s))
           = (''Habit'' # DAYS @ [''Total'', ''Percentage''])
             # map (\<lambda>h. h_name h
                        # map (\<lambda>day. if cell (tracker s) (h_id h) day then ''1'' else ''0'') DAYS
                        @ [show_int (fst (habitSummary (tracker s) h)),
                           show_int (snd (habitSummary (tracker s) h)) @ ''%''])
                   (habits s)"
    by (simp add: headerFields_def rowFields_def dayFields_def)
  have stats: "\<forall>h \<in> set (habits s).
              fst (habitSummary (tracker s) h)
                = int (length (filter (cell (tracker s) (h_id h)) DAYS))
            \<and> snd (habitSummary (tracker s) h)
                = Math_round (100 * of_int (fst (habitSummary (tracker s) h)) / 7)"
    using summary_range summary_percent by blast
  have name: "snd (downloadStats s) = ''habit-tracker-'' @ weekStartDate s @ ''.csv''"
    by (simp add: downloadStats_def Let_def)
  from rows stats name show ?thesis by blast
qed

theorem csv_export_witness:
  "list_all (\<lambda>h. CHR '','' \<notin> set (h_name h) \<and> CHR 0x0A \<notin> set (h_name h))
            (habits (app busyWorld))
   \<and> readCsv (fst (downloadStats (app busyWorld)))
       = (''Habit'' # DAYS @ [''Total'', ''Percentage''])
         # map (\<lambda>h. h_name h
                    # map (\<lambda>day. if cell (tracker (app busyWorld)) (h_id h) day then ''1'' else ''0'')
                          DAYS
                    @ [show_int (fst (habitSummary (tracker (app busyWorld)) h)),
                       show_int (snd (habitSummary (tracker (app busyWorld)) h)) @ ''%''])
               (habits (app busyWorld))
   \<and> snd (downloadStats (app busyWorld)) = ''habit-tracker-2024-01-01.csv''"
proof -
  have plain: "\<forall>h \<in> set (habits (app busyWorld)).
                 CHR '','' \<notin> set (h_name h) \<and> CHR 0x0A \<notin> set (h_name h)"
    by (simp add: busyWorld_def trackingWorld_def exampleHabits_def)
  have "weekStartDate (app busyWorld) = ''2024-01-01''"
    by (simp add: busyWorld_def trackingWorld_def)
  then show ?thesis
    unfolding list_all_iff using csv_export [OF plain] plain by simp
qed

text \<open>
  The claim as stated, for every habit list, fails for a name with a comma: the name is
  written as it is, so the row of the habit \<open>a,b\<close> has eleven fields and its Monday
  column reads \<open>b\<close>.
\<close>

theorem csv_comma_in_name:
  "readCsv (fst (downloadStats commaState))
     = [[''Habit'', ''Monday'', ''Tuesday'', ''Wednesday'', ''Thursday'', ''Friday'', ''Saturday'',
         ''Sunday'', ''Total'', ''Percentage''],
        [''a'', ''b'', ''0'', ''0'', ''0'', ''0'', ''0'', ''0'', ''0'', ''0'', ''0%'']]
   \<and> map h_name (habits commaState) = [''a,b'']"
  by code_simp

text \<open>
  The export of the tracking example later in the week.
\<close>

lemma busy_csv:
  "readCsv (fst (downloadStats (app busyWorld)))
     = [[''Habit'', ''Monday'', ''Tuesday'', ''Wednesday'', ''Thursday'', ''Friday'', ''Saturday'',
         ''Sunday'', ''Total'', ''Percentage''],
        [''read'', ''1'', ''0'', ''0'', ''0'', ''0'', ''0'', ''0'', ''1'', ''14%''],
        [''run'', ''0'', ''0'', ''1'', ''0'', ''0'', ''0'', ''0'', ''1'', ''14%''],
        [''cook'', ''0'', ''0'', ''0'', ''0'', ''0'', ''0'', ''0'', ''0'', ''0%''],
        [''sleep'', ''0'', ''0'', ''0'', ''0'', ''0'', ''0'', ''0'', ''0'', ''0%''],
        [''code'', ''0'', ''0'', ''0'', ''0'', ''0'', ''0'', ''0'', ''0'', ''0%'']]"
  by code_simp

end
